theory Spec2Isabelle
  imports Main "HOL-Library.Sublist" "HOL-Library.Char_ord" "HOL-Library.List_Lexorder"
begin

section \<open>Data model\<close>

text \<open>
  One row of the \<open>files\<close> table. The interface \<open>FileRecord\<close> of \<open>Index.tsx\<close> lists
  the columns the screen reads; \<open>user_id\<close> is written by \<open>handleUpload\<close> and read by
  the ownership filter. \<open>shared_with\<close> may be \<open>null\<close> in the table (the screen reads
  it with \<open>?.\<close>), so it is optional. The column \<open>id\<close> is called \<open>row_id\<close> here, since
  \<open>id\<close> is the identity function of HOL.
\<close>

record file_row =
  row_id :: string
  filename :: string
  public_url :: string
  type :: string
  extension :: string
  shared_with :: "string list option"
  fullname :: string
  created_at :: string
  user_id :: string

text \<open>The authenticated user (\<open>User\<close> of the client library): \<open>id\<close> and the optional \<open>email\<close>.\<close>

record auth_user =
  uid :: string
  email :: "string option"

text \<open>The browser's \<open>File\<close>: its name, its MIME type and its bytes.\<close>

record local_file =
  name :: string
  mime :: string
  bytes :: string

text \<open>A notification raised with \<open>toast({title, description, variant})\<close>.\<close>

record toast =
  title :: string
  description :: string
  variant :: "string option"

text \<open>The \<open>useState\<close> cells of the \<open>Index\<close> component, and the notifications shown so far.\<close>

record state =
  files :: "file_row list"
  user :: "auth_user option"
  selectedFile :: "local_file option"
  shareEmail :: string
  selectedFileId :: "string option"
  isUploading :: bool
  toasts :: "toast list"

section \<open>The data store and the object storage\<close>

text \<open>
  The code builds its queries with the client's builder:
  \<open>from("files").select("*")\<close>, then \<open>.or(..)\<close>, \<open>.eq(..)\<close>, \<open>.ilike(..)\<close>,
  \<open>.order(..)\<close>, \<open>.limit(..)\<close>. A query is the record of what was chained. \<open>.or(..)\<close>
  takes its conditions as one string, which the query keeps as the code wrote it; the
  store reads it.
\<close>

datatype filter =
    Eq string string
  | Cs string "string list"
  | Ilike string string
  | Or string

record query =
  filters :: "filter list"
  order_by :: "(string \<times> bool) option"
  limit_to :: "int option"

definition select_all :: query where
  "select_all = \<lparr>filters = [], order_by = None, limit_to = None\<rparr>"

definition or_q :: "string \<Rightarrow> query \<Rightarrow> query" where
  "or_q conditions q = q\<lparr>filters := filters q @ [Or conditions]\<rparr>"

definition eq_q :: "string \<Rightarrow> string \<Rightarrow> query \<Rightarrow> query" where
  "eq_q c v q = q\<lparr>filters := filters q @ [Eq c v]\<rparr>"

definition ilike_q :: "string \<Rightarrow> string \<Rightarrow> query \<Rightarrow> query" where
  "ilike_q c p q = q\<lparr>filters := filters q @ [Ilike c p]\<rparr>"

definition order_q :: "string \<Rightarrow> bool \<Rightarrow> query \<Rightarrow> query" where
  "order_q c ascending q = q\<lparr>order_by := Some (c, ascending)\<rparr>"

definition limit_q :: "int \<Rightarrow> query \<Rightarrow> query" where
  "limit_q n q = q\<lparr>limit_to := Some n\<rparr>"

text \<open>What the metadata insert of \<open>handleUpload\<close> sends.\<close>

record file_insert =
  ins_filename :: string
  ins_public_url :: string
  ins_user_id :: string
  ins_type :: string
  ins_extension :: string
  ins_fullname :: string

text \<open>The remote calls the screen can issue.\<close>

datatype request =
    Select query
  | SelectSingle string "filter list"
  | Insert file_insert
  | Update "string list" "filter list"
  | Upload string local_file

text \<open>
  The backend: the table, the stored objects by key, the requests received so far, and
  which requests it answers with an error (and with which message). \<open>fresh_id\<close> and
  \<open>clock\<close> are the id and the creation time it gives to the next inserted row;
  \<open>storage_url\<close> is the prefix of its public URLs.
\<close>

record backend =
  files_table :: "file_row list"
  objects :: "(string \<times> local_file) list"
  requests :: "request list"
  fails :: "request \<Rightarrow> string option"
  fresh_id :: string
  clock :: string
  storage_url :: string

text \<open>Every awaited call resolves to \<open>{data, error}\<close>; \<open>error\<close> carries the message.\<close>

record 'a response =
  data :: "'a option"
  error :: "string option"

text \<open>
  Modelled from the spec: the tabular data store's \<open>select(table, filter, order, limit)\<close>,
  \<open>insert\<close> and \<open>update\<close>, and the object storage's \<open>put\<close> and \<open>getPublicUrl\<close>, which
  belong to the hosted platform. Filters are conjoined; \<open>eq\<close> is exact match, \<open>cs\<close> is
  array containment, \<open>ilike\<close> is case-insensitive \<open>LIKE\<close> with \<open>%\<close> and \<open>_\<close>.
  The string of an \<open>or\<close> is a list of conditions separated by commas, each of them
  \<open>column.operator.value\<close>; an array value stands between braces, its elements
  separated by commas, and a comma between braces does not end the condition. The row
  passes when one of the conditions holds; a condition the store cannot read holds of no
  row.
\<close>

definition col_text :: "string \<Rightarrow> file_row \<Rightarrow> string option" where
  "col_text c r =
     (if c = ''id'' then Some (row_id r)
      else if c = ''filename'' then Some (filename r)
      else if c = ''public_url'' then Some (public_url r)
      else if c = ''type'' then Some (type r)
      else if c = ''extension'' then Some (extension r)
      else if c = ''fullname'' then Some (fullname r)
      else if c = ''created_at'' then Some (created_at r)
      else if c = ''user_id'' then Some (user_id r)
      else None)"

definition lower :: "char \<Rightarrow> char" where
  "lower c = (if CHR ''A'' \<le> c \<and> c \<le> CHR ''Z'' then char_of (of_char c + (32::nat)) else c)"

fun like_match :: "string \<Rightarrow> string \<Rightarrow> bool" where
  "like_match [] [] = True"
| "like_match [] (c # cs) = False"
| "like_match (p # ps) [] = (p = CHR ''%'' \<and> like_match ps [])"
| "like_match (p # ps) (c # cs) =
     (if p = CHR ''%'' then like_match ps (c # cs) \<or> like_match (p # ps) cs
      else (p = CHR ''_'' \<or> lower p = lower c) \<and> like_match ps cs)"

fun split_top :: "nat \<Rightarrow> string \<Rightarrow> string list" where
  "split_top depth [] = [[]]"
| "split_top depth (c # cs) =
     (if c = CHR '','' \<and> depth = 0 then [] # split_top depth cs
      else
        (case split_top
                (if c = CHR ''{'' then Suc depth else if c = CHR ''}'' then depth - 1 else depth)
                cs of
           [] \<Rightarrow> [[c]]
         | s # ss \<Rightarrow> (c # s) # ss))"

definition parse_cond :: "string \<Rightarrow> filter option" where
  "parse_cond s =
     (let col = takeWhile (\<lambda>c. c \<noteq> CHR ''.'') s;
          rest = drop (Suc (length col)) s;
          oper = takeWhile (\<lambda>c. c \<noteq> CHR ''.'') rest;
          v = drop (Suc (length oper)) rest
      in if oper = ''eq'' then Some (Eq col v)
         else if oper = ''ilike'' then Some (Ilike col v)
         else if oper = ''cs'' \<and> 2 \<le> length v \<and> hd v = CHR ''{'' \<and> last v = CHR ''}''
         then Some (Cs col (if length v = 2 then [] else split_top 0 (butlast (tl v))))
         else None)"

fun holds_plain :: "filter \<Rightarrow> file_row \<Rightarrow> bool" where
  "holds_plain (Eq c v) r = (col_text c r = Some v)"
| "holds_plain (Cs c vs) r =
     (c = ''shared_with'' \<and>
      (case shared_with r of None \<Rightarrow> False | Some xs \<Rightarrow> list_all (\<lambda>v. v \<in> set xs) vs))"
| "holds_plain (Ilike c p) r =
     (case col_text c r of None \<Rightarrow> False | Some t \<Rightarrow> like_match p t)"
| "holds_plain (Or s) r = False"

fun holds :: "filter \<Rightarrow> file_row \<Rightarrow> bool" where
  "holds (Or s) r =
     list_ex (\<lambda>c. case parse_cond c of None \<Rightarrow> False | Some f \<Rightarrow> holds_plain f r)
       (split_top 0 s)"
| "holds f r = holds_plain f r"

definition sort_text :: "string \<Rightarrow> file_row \<Rightarrow> string" where
  "sort_text c r = (case col_text c r of None \<Rightarrow> [] | Some t \<Rightarrow> t)"

fun apply_order :: "(string \<times> bool) option \<Rightarrow> file_row list \<Rightarrow> file_row list" where
  "apply_order None rs = rs"
| "apply_order (Some (c, ascending)) rs =
     (if ascending then sort_key (sort_text c) rs else rev (sort_key (sort_text c) rs))"

fun apply_limit :: "int option \<Rightarrow> file_row list \<Rightarrow> file_row list" where
  "apply_limit None rs = rs"
| "apply_limit (Some n) rs = take (nat n) rs"

definition matching :: "filter list \<Rightarrow> file_row list \<Rightarrow> file_row list" where
  "matching fs rs = filter (\<lambda>r. list_all (\<lambda>f. holds f r) fs) rs"

definition run_select :: "query \<Rightarrow> file_row list \<Rightarrow> file_row list" where
  "run_select q rs = apply_limit (limit_to q) (apply_order (order_by q) (matching (filters q) rs))"

definition db_select :: "query \<Rightarrow> backend \<Rightarrow> file_row list response \<times> backend" where
  "db_select q be =
     ((case fails be (Select q) of
         Some m \<Rightarrow> \<lparr>data = None, error = Some m\<rparr>
       | None \<Rightarrow> \<lparr>data = Some (run_select q (files_table be)), error = None\<rparr>),
      be\<lparr>requests := requests be @ [Select q]\<rparr>)"

section \<open>The file query of \<open>Index.tsx\<close>\<close>

record FetchFilesParams =
  fileType :: "string option"
  searchQuery :: "string option"
  sortBy :: "string option"
  limit :: "int option"

text \<open>\<open>fetchFiles()\<close> with no argument: the parameter defaults to \<open>{}\<close>.\<close>

definition no_params :: FetchFilesParams where
  "no_params = \<lparr>fileType = None, searchQuery = None, sortBy = None, limit = None\<rparr>"

text \<open>A string in a condition: \<open>undefined\<close>, \<open>null\<close> and \<open>""\<close> are false.\<close>

fun truthy :: "string option \<Rightarrow> bool" where
  "truthy None = False"
| "truthy (Some s) = (s \<noteq> [])"

definition allowedSortColumns :: "string list" where
  "allowedSortColumns = [''created_at'', ''filename'', ''type'']"

text \<open>The destructured parameter \<open>sortBy = "created_at"\<close>: the default replaces \<open>undefined\<close>.\<close>

definition sortBy_or_default :: "FetchFilesParams \<Rightarrow> string" where
  "sortBy_or_default p = (case sortBy p of None \<Rightarrow> ''created_at'' | Some s \<Rightarrow> s)"

definition finalSortBy :: "FetchFilesParams \<Rightarrow> string" where
  "finalSortBy p =
     (if sortBy_or_default p \<in> set allowedSortColumns then sortBy_or_default p
      else ''created_at'')"

text \<open>
  \<open>limit && limit > 0 && limit <= 100\<close>. The limit is the integer that \<open>parseInt\<close> read
  from the address; \<open>undefined\<close> and \<open>NaN\<close> are \<open>None\<close>, and both are false in a condition,
  as \<open>0\<close> is.
\<close>

definition limit_applies :: "int option \<Rightarrow> bool" where
  "limit_applies l = (case l of None \<Rightarrow> False | Some n \<Rightarrow> n \<noteq> 0 \<and> 0 < n \<and> n \<le> 100)"

text \<open>
  The template literal \<open>`user_id.eq.${user.id},shared_with.cs.{${user.email}}`\<close> of
  \<open>Index.tsx\<close> (line 87) and of \<open>getFiles\<close> (line 39): the id and the email are pasted in
  as they are.
\<close>

definition or_string :: "string \<Rightarrow> string \<Rightarrow> string" where
  "or_string user_ident user_email =
     ''user_id.eq.'' @ user_ident @ '',shared_with.cs.{'' @ user_email @ ''}''"

text \<open>Lines 84 to 106: the query that \<open>fetchFiles\<close> chains for a user id and an email.\<close>

definition fetchFiles_query :: "string \<Rightarrow> string \<Rightarrow> FetchFilesParams \<Rightarrow> query" where
  "fetchFiles_query user_ident user_email p =
     (let q0 = or_q (or_string user_ident user_email) select_all;
          q1 = (if truthy (fileType p) then eq_q ''type'' (the (fileType p)) q0 else q0);
          q2 = (if truthy (searchQuery p)
                then ilike_q ''filename'' (''%'' @ the (searchQuery p) @ ''%'') q1 else q1);
          q3 = order_q (finalSortBy p) False q2
      in if limit_applies (limit p) then limit_q (the (limit p)) q3 else q3)"

definition fetch_error_toast :: "string \<Rightarrow> toast" where
  "fetch_error_toast m =
     \<lparr>title = ''Error fetching files'', description = m, variant = Some ''destructive''\<rparr>"

text \<open>
  \<open>fetchFiles\<close> of \<open>Index.tsx\<close>. The guard \<open>!user?.id || !user?.email\<close> returns before
  anything is built. No statement of the \<open>try\<close> block throws here (the awaited query
  resolves to \<open>{data, error}\<close>), and its \<open>catch\<close> arm raises the same notification as
  the \<open>error\<close> arm.
\<close>

definition fetchFiles :: "FetchFilesParams \<Rightarrow> state \<Rightarrow> backend \<Rightarrow> state \<times> backend" where
  "fetchFiles p st be =
     (case user st of
        None \<Rightarrow> (st, be)
      | Some u \<Rightarrow>
          if \<not> truthy (Some (uid u)) \<or> \<not> truthy (email u) then (st, be)
          else
            (let (res, be') = db_select (fetchFiles_query (uid u) (the (email u)) p) be
             in case error res of
                  Some m \<Rightarrow> (st\<lparr>toasts := toasts st @ [fetch_error_toast m]\<rparr>, be')
                | None \<Rightarrow> (st\<lparr>files := (case data res of None \<Rightarrow> [] | Some d \<Rightarrow> d)\<rparr>, be')))"

section \<open>The file query of the other two variants\<close>

text \<open>
  \<open>fetchFiles\<close> of the earlier screen (\<open>part_000\<close>, lines 60 to 76): it selects every row,
  newest first, without reading \<open>user\<close>.
\<close>

definition fetchFiles_part_000 :: "state \<Rightarrow> backend \<Rightarrow> state \<times> backend" where
  "fetchFiles_part_000 st be =
     (let (res, be') = db_select (order_q ''created_at'' False select_all) be
      in case error res of
           Some m \<Rightarrow> (st\<lparr>toasts := toasts st @ [fetch_error_toast m]\<rparr>, be')
         | None \<Rightarrow> (st\<lparr>files := (case data res of None \<Rightarrow> [] | Some d \<Rightarrow> d)\<rparr>, be'))"

text \<open>
  The server action \<open>getFiles\<close> (\<open>part_001\<close>). It throws (through \<open>handleError\<close>, which
  logs and rethrows) when the id or the email is missing, returns an error object when
  the query fails, and otherwise returns \<open>parseStringify(data)\<close>. \<open>parseStringify\<close> is
  imported from \<open>@/lib/utils\<close> and is a parameter here. The \<open>console.log\<close> lines are left
  out.
\<close>

datatype 'a outcome = Throws string | ErrorObject string | Returns 'a

definition getFiles_query :: "string \<Rightarrow> string \<Rightarrow> query" where
  "getFiles_query userId user_email =
     order_q ''created_at'' False (or_q (or_string userId user_email) select_all)"

definition getFiles ::
  "(file_row list option \<Rightarrow> 'a) \<Rightarrow> string option \<Rightarrow> string option \<Rightarrow> backend
     \<Rightarrow> 'a outcome \<times> backend" where
  "getFiles parseStringify userId user_email be =
     (if \<not> truthy userId then (Throws ''User ID is required'', be)
      else if \<not> truthy user_email then (Throws ''Email is required'', be)
      else
        (let (res, be') = db_select (getFiles_query (the userId) (the user_email)) be
         in case error res of
              Some m \<Rightarrow> (ErrorObject (if m = [] then ''Failed to fetch files'' else m), be')
            | None \<Rightarrow> (Returns (parseStringify (data res)), be')))"

section \<open>Upload\<close>

text \<open>
  \<open>selectedFile.name.split(".").pop()\<close>: \<open>split\<close> cuts the name at every dot and always
  yields at least one piece; \<open>pop\<close> gives the last piece, or \<open>undefined\<close> on an empty
  array. In a template literal \<open>undefined\<close> prints as the word.
\<close>

fun js_split :: "char \<Rightarrow> string \<Rightarrow> string list" where
  "js_split c [] = [[]]"
| "js_split c (x # xs) =
     (if x = c then [] # js_split c xs
      else (case js_split c xs of [] \<Rightarrow> [[x]] | s # ss \<Rightarrow> (x # s) # ss))"

definition js_pop :: "'a list \<Rightarrow> 'a option" where
  "js_pop xs = (if xs = [] then None else Some (last xs))"

definition fileExt :: "string \<Rightarrow> string option" where
  "fileExt file_name = js_pop (js_split CHR ''.'' file_name)"

definition in_template :: "string option \<Rightarrow> string" where
  "in_template v = (case v of None \<Rightarrow> ''undefined'' | Some s \<Rightarrow> s)"

text \<open>\<open>`${crypto.randomUUID()}.${fileExt}`\<close>, for the token that \<open>randomUUID\<close> returned.\<close>

definition fileName :: "string \<Rightarrow> string \<Rightarrow> string" where
  "fileName uuid file_name = uuid @ ''.'' @ in_template (fileExt file_name)"

text \<open>\<open>v || d\<close> on an optional string.\<close>

definition or_else :: "string option \<Rightarrow> string \<Rightarrow> string" where
  "or_else v d = (if truthy v then the v else d)"

text \<open>
  Modelled from the spec: the object storage's \<open>put(key, bytes)\<close> and
  \<open>getPublicUrl(key)\<close>, and the data store's \<open>insert\<close> and \<open>update\<close>. A put under a
  key that is taken is refused (the client uploads without \<open>upsert\<close>).
\<close>

definition storage_upload :: "string \<Rightarrow> local_file \<Rightarrow> backend \<Rightarrow> unit response \<times> backend" where
  "storage_upload k f be =
     (let be' = be\<lparr>requests := requests be @ [Upload k f]\<rparr>
      in case fails be (Upload k f) of
           Some m \<Rightarrow> (\<lparr>data = None, error = Some m\<rparr>, be')
         | None \<Rightarrow>
             if k \<in> set (map fst (objects be))
             then (\<lparr>data = None, error = Some ''The resource already exists''\<rparr>, be')
             else (\<lparr>data = Some (), error = None\<rparr>, be'\<lparr>objects := objects be @ [(k, f)]\<rparr>))"

definition getPublicUrl :: "backend \<Rightarrow> string \<Rightarrow> string" where
  "getPublicUrl be k = storage_url be @ k"

definition new_row :: "backend \<Rightarrow> file_insert \<Rightarrow> file_row" where
  "new_row be v =
     \<lparr>row_id = fresh_id be, filename = ins_filename v, public_url = ins_public_url v,
      type = ins_type v, extension = ins_extension v, shared_with = None,
      fullname = ins_fullname v, created_at = clock be, user_id = ins_user_id v\<rparr>"

definition db_insert :: "file_insert \<Rightarrow> backend \<Rightarrow> unit response \<times> backend" where
  "db_insert v be =
     (let be' = be\<lparr>requests := requests be @ [Insert v]\<rparr>
      in case fails be (Insert v) of
           Some m \<Rightarrow> (\<lparr>data = None, error = Some m\<rparr>, be')
         | None \<Rightarrow>
             (\<lparr>data = Some (), error = None\<rparr>,
              be'\<lparr>files_table := files_table be @ [new_row be v]\<rparr>))"

definition upload_error_toast :: "string \<Rightarrow> toast" where
  "upload_error_toast m =
     \<lparr>title = ''Error uploading file'', description = m, variant = Some ''destructive''\<rparr>"

definition upload_success_toast :: toast where
  "upload_success_toast =
     \<lparr>title = ''Success'', description = ''File uploaded successfully'', variant = None\<rparr>"

text \<open>The object given to \<open>insert\<close> (lines 154 to 161), for the extension just derived.\<close>

definition upload_insert ::
  "local_file \<Rightarrow> auth_user \<Rightarrow> string option \<Rightarrow> string \<Rightarrow> file_insert" where
  "upload_insert f u ext publicUrl =
     \<lparr>ins_filename = name f, ins_public_url = publicUrl, ins_user_id = uid u,
      ins_type = mime f, ins_extension = or_else ext [],
      ins_fullname = or_else (email u) ''Unknown''\<rparr>"

text \<open>
  \<open>handleUpload\<close>, the same text in \<open>Index.tsx\<close> (lines 136 to 181) and in \<open>part_000\<close>
  (lines 85 to 130); the two differ in the \<open>fetchFiles\<close> they call, here \<open>refresh\<close>.
  \<open>uuid\<close> is what \<open>crypto.randomUUID()\<close> returned. A \<open>throw\<close> in the \<open>try\<close> block goes to
  the \<open>catch\<close> arm (the error notification), and \<open>finally\<close> runs on every path that
  entered the \<open>try\<close>. \<open>fetchFiles()\<close> is not awaited: its query is issued before
  \<open>finally\<close> runs and its result lands after; the two write different cells, so the order
  does not show in the final state.
\<close>

definition handleUpload_with ::
  "(state \<Rightarrow> backend \<Rightarrow> state \<times> backend) \<Rightarrow> string \<Rightarrow> state \<Rightarrow> backend \<Rightarrow> state \<times> backend" where
  "handleUpload_with refresh uuid st be =
     (case selectedFile st of
        None \<Rightarrow> (st, be)
      | Some f \<Rightarrow>
     (case user st of
        None \<Rightarrow> (st, be)
      | Some u \<Rightarrow>
          (let st1 = st\<lparr>isUploading := True\<rparr>;
               ext = fileExt (name f);
               k = fileName uuid (name f);
               (up, be1) = storage_upload k f be
           in case error up of
                Some m \<Rightarrow>
                  (st1\<lparr>toasts := toasts st1 @ [upload_error_toast m], isUploading := False\<rparr>, be1)
              | None \<Rightarrow>
                  (let publicUrl = getPublicUrl be1 k;
                       (ins, be2) = db_insert (upload_insert f u ext publicUrl) be1
                   in case error ins of
                        Some m \<Rightarrow>
                          (st1\<lparr>toasts := toasts st1 @ [upload_error_toast m],
                               isUploading := False\<rparr>, be2)
                      | None \<Rightarrow>
                          (let st2 = st1\<lparr>toasts := toasts st1 @ [upload_success_toast],
                                          selectedFile := None\<rparr>;
                               (st3, be3) = refresh st2 be2
                           in (st3\<lparr>isUploading := False\<rparr>, be3))))))"

definition handleUpload :: "string \<Rightarrow> state \<Rightarrow> backend \<Rightarrow> state \<times> backend" where
  "handleUpload = handleUpload_with (fetchFiles no_params)"

definition handleUpload_part_000 :: "string \<Rightarrow> state \<Rightarrow> backend \<Rightarrow> state \<times> backend" where
  "handleUpload_part_000 = handleUpload_with fetchFiles_part_000"

section \<open>Share\<close>

text \<open>
  Modelled from the spec: \<open>select("shared_with").eq("id", ..).single()\<close> answers with
  the column of the one matching row and with an error when no row or several rows
  match; \<open>update({shared_with: ..}).eq("id", ..)\<close> writes the column of every matching row.
\<close>

definition db_select_single ::
  "filter list \<Rightarrow> backend \<Rightarrow> string list option response \<times> backend" where
  "db_select_single fs be =
     ((case fails be (SelectSingle ''shared_with'' fs) of
         Some m \<Rightarrow> \<lparr>data = None, error = Some m\<rparr>
       | None \<Rightarrow>
           (case matching fs (files_table be) of
              [r] \<Rightarrow> \<lparr>data = Some (shared_with r), error = None\<rparr>
            | _ \<Rightarrow> \<lparr>data = None,
                    error = Some ''JSON object requested, multiple (or no) rows returned''\<rparr>)),
      be\<lparr>requests := requests be @ [SelectSingle ''shared_with'' fs]\<rparr>)"

definition db_update :: "string list \<Rightarrow> filter list \<Rightarrow> backend \<Rightarrow> unit response \<times> backend" where
  "db_update xs fs be =
     (let be' = be\<lparr>requests := requests be @ [Update xs fs]\<rparr>
      in case fails be (Update xs fs) of
           Some m \<Rightarrow> (\<lparr>data = None, error = Some m\<rparr>, be')
         | None \<Rightarrow>
             (\<lparr>data = Some (), error = None\<rparr>,
              be'\<lparr>files_table :=
                    map (\<lambda>r. if list_all (\<lambda>f. holds f r) fs then r\<lparr>shared_with := Some xs\<rparr> else r)
                      (files_table be)\<rparr>))"

definition share_error_toast :: "string \<Rightarrow> toast" where
  "share_error_toast m =
     \<lparr>title = ''Error sharing file'', description = m, variant = Some ''destructive''\<rparr>"

definition share_success_toast :: "string \<Rightarrow> toast" where
  "share_success_toast e =
     \<lparr>title = ''Success'', description = ''File shared with '' @ e, variant = None\<rparr>"

text \<open>\<open>[...(currentFile?.shared_with || []), shareEmail]\<close>.\<close>

definition updatedSharedWith :: "string list option option \<Rightarrow> string \<Rightarrow> string list" where
  "updatedSharedWith currentFile e =
     (case currentFile of
        None \<Rightarrow> []
      | Some None \<Rightarrow> []
      | Some (Some xs) \<Rightarrow> xs) @ [e]"

text \<open>\<open>handleShare\<close> of \<open>Index.tsx\<close> (lines 183 to 222).\<close>

definition handleShare :: "state \<Rightarrow> backend \<Rightarrow> state \<times> backend" where
  "handleShare st be =
     (if \<not> truthy (selectedFileId st) \<or> \<not> truthy (Some (shareEmail st)) then (st, be)
      else
        (let fid = the (selectedFileId st);
             (cur, be1) = db_select_single [Eq ''id'' fid] be
         in case error cur of
              Some m \<Rightarrow> (st\<lparr>toasts := toasts st @ [share_error_toast m]\<rparr>, be1)
            | None \<Rightarrow>
                (let (upd, be2) = db_update (updatedSharedWith (data cur) (shareEmail st))
                                    [Eq ''id'' fid] be1
                 in case error upd of
                      Some m \<Rightarrow> (st\<lparr>toasts := toasts st @ [share_error_toast m]\<rparr>, be2)
                    | None \<Rightarrow>
                        fetchFiles no_params
                          (st\<lparr>toasts := toasts st @ [share_success_toast (shareEmail st)],
                              shareEmail := [], selectedFileId := None\<rparr>) be2)))"

section \<open>The specification's vocabulary\<close>

text \<open>The ownership and sharing predicate: the row is the user's, or shared with the email.\<close>

definition visible_to :: "string \<Rightarrow> string \<Rightarrow> file_row \<Rightarrow> bool" where
  "visible_to user_ident user_email r =
     (user_id r = user_ident \<or>
      (case shared_with r of None \<Rightarrow> False | Some xs \<Rightarrow> user_email \<in> set xs))"

text \<open>
  A string with none of the characters that the syntax of an \<open>or\<close> string reserves:
  comma, braces, parentheses and the double quote.
\<close>

definition plain :: "string \<Rightarrow> bool" where
  "plain s =
     list_all (\<lambda>c. c \<notin> set [CHR '','', CHR ''{'', CHR ''}'', CHR ''('', CHR '')'', CHR 0x22]) s"

text \<open>The part of a name after its last dot: the longest ending without a dot.\<close>

definition after_last_dot :: "string \<Rightarrow> string" where
  "after_last_dot file_name = rev (takeWhile (\<lambda>c. c \<noteq> CHR ''.'') (rev file_name))"

text \<open>The shared-with list of a row, an absent one read as empty.\<close>

definition shared_list :: "file_row \<Rightarrow> string list" where
  "shared_list r = (case shared_with r of None \<Rightarrow> [] | Some xs \<Rightarrow> xs)"

section \<open>Concrete inputs\<close>

text \<open>
  A user, three rows (her own, one shared with her, one of somebody else that is not
  shared), a screen state after sign-in and a backend that answers every request.
\<close>

definition alice :: auth_user where
  "alice = \<lparr>uid = ''u1'', email = Some ''alice@example.org''\<rparr>"

definition row_own :: file_row where
  "row_own =
     \<lparr>row_id = ''f1'', filename = ''a.png'', public_url = ''https://storage.example/k1.png'',
      type = ''image/png'', extension = ''png'', shared_with = None,
      fullname = ''alice@example.org'', created_at = ''2024-01-01'', user_id = ''u1''\<rparr>"

definition row_shared :: file_row where
  "row_shared =
     \<lparr>row_id = ''f2'', filename = ''b.txt'', public_url = ''https://storage.example/k2.txt'',
      type = ''text/plain'', extension = ''txt'', shared_with = Some [''alice@example.org''],
      fullname = ''bob@example.org'', created_at = ''2024-02-01'', user_id = ''u2''\<rparr>"

definition row_other :: file_row where
  "row_other =
     \<lparr>row_id = ''f3'', filename = ''c.txt'', public_url = ''https://storage.example/k3.txt'',
      type = ''text/plain'', extension = ''txt'', shared_with = None,
      fullname = ''bob@example.org'', created_at = ''2024-02-02'', user_id = ''u2''\<rparr>"

definition signed_in :: state where
  "signed_in =
     \<lparr>files = [], user = Some alice, selectedFile = None, shareEmail = [],
      selectedFileId = None, isUploading = False, toasts = []\<rparr>"

definition store :: backend where
  "store =
     \<lparr>files_table = [row_own, row_shared, row_other], objects = [], requests = [],
      fails = (\<lambda>_. None), fresh_id = ''f9'', clock = ''2024-03-01'',
      storage_url = ''https://storage.example/''\<rparr>"

text \<open>
  A caller whose email holds a comma, and a row of somebody else that is shared with the
  two addresses on either side of that comma.
\<close>

definition mallory :: auth_user where
  "mallory = \<lparr>uid = ''u9'', email = Some ''alice@example.org,carol@example.org''\<rparr>"

definition row_team :: file_row where
  "row_team =
     \<lparr>row_id = ''f4'', filename = ''d.txt'', public_url = ''https://storage.example/k4.txt'',
      type = ''text/plain'', extension = ''txt'',
      shared_with = Some [''alice@example.org'', ''carol@example.org''],
      fullname = ''bob@example.org'', created_at = ''2024-02-03'', user_id = ''u2''\<rparr>"

text \<open>Two local files: one named with an extension, one without a dot.\<close>

definition a_txt :: local_file where
  "a_txt = \<lparr>name = ''a.txt'', mime = ''text/plain'', bytes = ''hello''\<rparr>"

definition readme :: local_file where
  "readme = \<lparr>name = ''README'', mime = [], bytes = ''read me''\<rparr>"

text \<open>Backends that refuse one kind of request with a message and answer the others.\<close>

fun is_upload :: "request \<Rightarrow> bool" where
  "is_upload (Upload k f) = True"
| "is_upload r = False"

fun is_insert :: "request \<Rightarrow> bool" where
  "is_insert (Insert v) = True"
| "is_insert r = False"

fun is_update :: "request \<Rightarrow> bool" where
  "is_update (Update xs fs) = True"
| "is_update r = False"

fun is_select_single :: "request \<Rightarrow> bool" where
  "is_select_single (SelectSingle c fs) = True"
| "is_select_single r = False"

definition refusing :: "(request \<Rightarrow> bool) \<Rightarrow> string \<Rightarrow> backend \<Rightarrow> backend" where
  "refusing kind m be = be\<lparr>fails := (\<lambda>r. if kind r then Some m else None)\<rparr>"

section \<open>The file query: scope, order, limit\<close>

lemma finalSortBy_allowed: "finalSortBy p \<in> set allowedSortColumns"
  by (simp add: finalSortBy_def allowedSortColumns_def)

lemma order_by_fetchFiles_query:
  "order_by (fetchFiles_query i e p) = Some (finalSortBy p, False)"
  by (simp add: fetchFiles_query_def Let_def order_q_def limit_q_def)

lemma limit_to_fetchFiles_query:
  "limit_to (fetchFiles_query i e p) = (if limit_applies (limit p) then limit p else None)"
  by (auto simp: fetchFiles_query_def Let_def order_q_def limit_q_def or_q_def eq_q_def
      ilike_q_def select_all_def limit_applies_def split: option.splits)

lemma filters_fetchFiles_query:
  "filters (fetchFiles_query i e p) =
     [Or (or_string i e)]
     @ (if truthy (fileType p) then [Eq ''type'' (the (fileType p))] else [])
     @ (if truthy (searchQuery p) then [Ilike ''filename'' (''%'' @ the (searchQuery p) @ ''%'')] else [])"
  by (simp add: fetchFiles_query_def Let_def order_q_def limit_q_def or_q_def eq_q_def
      ilike_q_def select_all_def)




lemma fetchFiles_resolved:
  assumes "user st = Some u" "email u = Some em" "uid u \<noteq> []" "em \<noteq> []"
  shows "fetchFiles p st be =
     (case fails be (Select (fetchFiles_query (uid u) em p)) of
        Some m \<Rightarrow> st\<lparr>toasts := toasts st @ [fetch_error_toast m]\<rparr>
      | None \<Rightarrow> st\<lparr>files := run_select (fetchFiles_query (uid u) em p) (files_table be)\<rparr>,
      be\<lparr>requests := requests be @ [Select (fetchFiles_query (uid u) em p)]\<rparr>)"
  using assms by (simp add: fetchFiles_def db_select_def split: option.splits)




text \<open>
  C4. On a query that the store answers, a limit \<open>n\<close> with \<open>1 \<le> n \<le> 100\<close> is put on the
  query and the list holds the first \<open>n\<close> of the ordered matching rows, so at most \<open>n\<close>;
  with no limit, or with \<open>0\<close>, \<open>101\<close>, a negative number or anything else out of range,
  the query has no limit and the list holds every matching row.
\<close>

theorem fetchFiles_limit_clamp:
  assumes "user st = Some u" and "email u = Some em" and "uid u \<noteq> []" and "em \<noteq> []"
    and "fails be (Select (fetchFiles_query (uid u) em p)) = None"
  shows "(\<forall>n. limit p = Some n \<and> 1 \<le> n \<and> n \<le> 100 \<longrightarrow>
            limit_to (fetchFiles_query (uid u) em p) = Some n \<and>
            int (length (files (fst (fetchFiles p st be)))) \<le> n \<and>
            files (fst (fetchFiles p st be)) =
              take (nat n) (apply_order (Some (finalSortBy p, False))
                 (matching (filters (fetchFiles_query (uid u) em p)) (files_table be)))) \<and>
         (limit p = None \<or> limit p = Some 0 \<or> limit p = Some 101 \<or>
            (\<exists>n. limit p = Some n \<and> (n < 1 \<or> 100 < n)) \<longrightarrow>
            limit_to (fetchFiles_query (uid u) em p) = None \<and>
            files (fst (fetchFiles p st be)) =
              apply_order (Some (finalSortBy p, False))
                 (matching (filters (fetchFiles_query (uid u) em p)) (files_table be)))"
proof -
  let ?q = "fetchFiles_query (uid u) em p"
  have fs: "files (fst (fetchFiles p st be)) = run_select ?q (files_table be)"
    using assms by (simp add: fetchFiles_resolved)
  have rs: "run_select ?q (files_table be) =
        apply_limit (limit_to ?q) (apply_order (Some (finalSortBy p, False))
           (matching (filters ?q) (files_table be)))"
    by (simp add: run_select_def order_by_fetchFiles_query)
  have inr: "limit_to ?q = Some n" if "limit p = Some n" "1 \<le> n" "n \<le> 100" for n
    using that by (simp add: limit_to_fetchFiles_query limit_applies_def)
  have outr: "limit_to ?q = None"
    if "limit p = None \<or> limit p = Some 0 \<or> limit p = Some 101 \<or>
        (\<exists>n. limit p = Some n \<and> (n < 1 \<or> 100 < n))"
    using that by (auto simp: limit_to_fetchFiles_query limit_applies_def)
  show ?thesis
  proof (intro conjI allI impI)
    fix n assume a: "limit p = Some n \<and> 1 \<le> n \<and> n \<le> 100"
    then show l: "limit_to ?q = Some n" using inr by blast
    show "files (fst (fetchFiles p st be)) =
              take (nat n) (apply_order (Some (finalSortBy p, False))
                 (matching (filters ?q) (files_table be)))"
      by (simp only: fs rs l apply_limit.simps)
    then have "length (files (fst (fetchFiles p st be))) \<le> nat n"
      by simp
    then show "int (length (files (fst (fetchFiles p st be)))) \<le> n"
      using a by linarith
  next
    assume a: "limit p = None \<or> limit p = Some 0 \<or> limit p = Some 101 \<or>
        (\<exists>n. limit p = Some n \<and> (n < 1 \<or> 100 < n))"
    then show l: "limit_to ?q = None" by (rule outr)
    show "files (fst (fetchFiles p st be)) =
              apply_order (Some (finalSortBy p, False))
                 (matching (filters ?q) (files_table be))"
      by (simp only: fs rs l apply_limit.simps)
  qed
qed

theorem fetchFiles_limit_clamp_witness:
  "user signed_in = Some alice \<and> email alice = Some ''alice@example.org'' \<and> uid alice \<noteq> [] \<and>
   fails store (Select (fetchFiles_query (uid alice) ''alice@example.org''
      (no_params\<lparr>limit := Some 1\<rparr>))) = None \<and>
   files (fst (fetchFiles (no_params\<lparr>limit := Some 1\<rparr>) signed_in store)) = [row_shared] \<and>
   files (fst (fetchFiles (no_params\<lparr>limit := Some 0\<rparr>) signed_in store)) = [row_shared, row_own] \<and>
   files (fst (fetchFiles (no_params\<lparr>limit := Some 101\<rparr>) signed_in store)) = [row_shared, row_own] \<and>
   files (fst (fetchFiles (no_params\<lparr>limit := Some (- 3)\<rparr>) signed_in store)) = [row_shared, row_own]"
  using fetchFiles_limit_clamp [of signed_in alice "''alice@example.org''" store
      "no_params\<lparr>limit := Some 1\<rparr>"]
    fetchFiles_limit_clamp [of signed_in alice "''alice@example.org''" store
      "no_params\<lparr>limit := Some 0\<rparr>"]
    fetchFiles_limit_clamp [of signed_in alice "''alice@example.org''" store
      "no_params\<lparr>limit := Some 101\<rparr>"]
    fetchFiles_limit_clamp [of signed_in alice "''alice@example.org''" store
      "no_params\<lparr>limit := Some (- 3)\<rparr>"]
  by (simp add: signed_in_def store_def alice_def fetchFiles_query_def no_params_def
      limit_applies_def finalSortBy_def sortBy_or_default_def allowedSortColumns_def
      or_q_def order_q_def limit_q_def select_all_def matching_def
      or_string_def parse_cond_def Let_def
      row_own_def row_shared_def row_other_def col_text_def sort_text_def
      less_eq_char_def less_char_def)

subsection \<open>Ownership and sharing\<close>

lemma split_top_no_comma: "CHR '','' \<notin> set s \<Longrightarrow> split_top depth s = [s]"
  by (induction s arbitrary: depth) auto

lemma split_top_comma:
  "CHR '','' \<notin> set a \<Longrightarrow> CHR ''{'' \<notin> set a \<Longrightarrow> CHR ''}'' \<notin> set a
   \<Longrightarrow> split_top 0 (a @ CHR '','' # b) = a # split_top 0 b"
  by (induction a) auto

lemma plain_chars:
  "plain s \<Longrightarrow> CHR '','' \<notin> set s \<and> CHR ''{'' \<notin> set s \<and> CHR ''}'' \<notin> set s"
  by (auto simp: plain_def list_all_iff)

lemma split_or_string:
  assumes "plain i" "plain e"
  shows "split_top 0 (or_string i e) = [''user_id.eq.'' @ i, ''shared_with.cs.{'' @ e @ ''}'']"
proof -
  have eq: "or_string i e = (''user_id.eq.'' @ i) @ CHR '','' # (''shared_with.cs.{'' @ e @ ''}'')"
    by (simp add: or_string_def)
  have a: "CHR '','' \<notin> set (''user_id.eq.'' @ i)" "CHR ''{'' \<notin> set (''user_id.eq.'' @ i)"
    "CHR ''}'' \<notin> set (''user_id.eq.'' @ i)"
    using plain_chars [OF assms(1)] by simp_all
  have b: "CHR '','' \<notin> set (''shared_with.cs.{'' @ e @ ''}'')"
    using plain_chars [OF assms(2)] by simp
  show ?thesis
    by (simp only: eq split_top_comma [OF a] split_top_no_comma [OF b])
qed

lemma parse_cond_eq: "parse_cond (''user_id.eq.'' @ i) = Some (Eq ''user_id'' i)"
  by (simp add: parse_cond_def Let_def)

lemma parse_cond_cs:
  assumes "e \<noteq> []" "CHR '','' \<notin> set e"
  shows "parse_cond (''shared_with.cs.{'' @ e @ ''}'') = Some (Cs ''shared_with'' [e])"
proof -
  have "butlast (e @ ''}'') = e" by (simp add: butlast_append)
  then show ?thesis
    using assms by (simp add: parse_cond_def Let_def split_top_no_comma)
qed

lemma holds_scope:
  assumes "plain i" "plain e" "e \<noteq> []"
  shows "holds (Or (or_string i e)) r = visible_to i e r"
proof -
  have c: "CHR '','' \<notin> set e" using plain_chars [OF assms(2)] by simp
  have "holds (Or (or_string i e)) r =
          (holds_plain (Eq ''user_id'' i) r \<or> holds_plain (Cs ''shared_with'' [e]) r)"
    by (simp only: holds.simps split_or_string [OF assms(1,2)] list_ex_Nil_iff list_ex_Cons_iff parse_cond_eq
        parse_cond_cs [OF assms(3) c] option.case simp_thms)
  also have "\<dots> = visible_to i e r"
    by (simp add: visible_to_def col_text_def split: option.splits)
  finally show ?thesis .
qed

lemma set_apply_order: "set (apply_order ob rs) = set rs"
  by (cases ob) (auto split: if_splits)

lemma set_apply_limit: "set (apply_limit l rs) \<subseteq> set rs"
  by (cases l) (auto dest: in_set_takeD)

lemma run_select_scoped:
  assumes "Or (or_string i e) \<in> set (filters q)"
    and "r \<in> set (run_select q rs)"
    and pl: "plain i" "plain e" "e \<noteq> []"
  shows "r \<in> set rs \<and> visible_to i e r"
proof -
  from assms(2) have "r \<in> set (matching (filters q) rs)"
    using set_apply_limit set_apply_order unfolding run_select_def by blast
  then have "r \<in> set rs" and "list_all (\<lambda>f. holds f r) (filters q)"
    by (simp_all add: matching_def)
  with assms(1) have "holds (Or (or_string i e)) r"
    unfolding list_all_iff by blast
  with \<open>r \<in> set rs\<close> show ?thesis by (simp only: holds_scope [OF pl])
qed

lemma run_select_scope_only:
  assumes "filters q = [Or (or_string i e)]" and "limit_to q = None"
    and pl: "plain i" "plain e" "e \<noteq> []"
  shows "r \<in> set (run_select q rs) \<longleftrightarrow> r \<in> set rs \<and> visible_to i e r"
  using assms(1,2)
  by (simp add: run_select_def set_apply_order matching_def holds_scope [OF pl] del: holds.simps)

lemma getFiles_resolved:
  assumes "i \<noteq> []" "e \<noteq> []"
  shows "getFiles ps (Some i) (Some e) be =
     (case fails be (Select (getFiles_query i e)) of
        Some m \<Rightarrow> ErrorObject (if m = [] then ''Failed to fetch files'' else m)
      | None \<Rightarrow> Returns (ps (Some (run_select (getFiles_query i e) (files_table be)))),
      be\<lparr>requests := requests be @ [Select (getFiles_query i e)]\<rparr>)"
  using assms by (simp add: getFiles_def db_select_def split: option.splits)

text \<open>
  C1, as amended. For a signed-in user with an id and an email that hold none of the
  characters reserved in an \<open>or\<close> string, and a query that the store answers: every row that \<open>fetchFiles\<close> of \<open>Index.tsx\<close> puts in the list is a row of
  the table that the user owns or that is shared with the user's email; when no type
  filter, no search text and no limit is in force, the list holds exactly those rows.
  \<open>getFiles\<close> returns exactly those rows.
\<close>

theorem fetchFiles_scoped:
  assumes "user st = Some u" and "email u = Some em" and "uid u \<noteq> []" and "em \<noteq> []"
    and "plain (uid u)" and "plain em"
  shows "(fails be (Select (fetchFiles_query (uid u) em p)) = None \<longrightarrow>
           (\<forall>F. F \<in> set (files (fst (fetchFiles p st be))) \<longrightarrow>
                  F \<in> set (files_table be) \<and> visible_to (uid u) em F) \<and>
           (\<not> truthy (fileType p) \<and> \<not> truthy (searchQuery p) \<and> \<not> limit_applies (limit p) \<longrightarrow>
              (\<forall>F. F \<in> set (files (fst (fetchFiles p st be))) \<longleftrightarrow>
                     F \<in> set (files_table be) \<and> visible_to (uid u) em F))) \<and>
         (fails be (Select (getFiles_query (uid u) em)) = None \<longrightarrow>
           (\<exists>rows. fst (getFiles parseStringify (Some (uid u)) (Some em) be)
                      = Returns (parseStringify (Some rows)) \<and>
              (\<forall>F. F \<in> set rows \<longleftrightarrow> F \<in> set (files_table be) \<and> visible_to (uid u) em F)))"
proof (intro conjI impI allI)
  let ?q = "fetchFiles_query (uid u) em p"
  assume ok: "fails be (Select ?q) = None"
  note pl = assms(5,6,4)
  have fs: "files (fst (fetchFiles p st be)) = run_select ?q (files_table be)"
    using assms(1-4) ok by (simp add: fetchFiles_resolved)
  have mem: "Or (or_string (uid u) em) \<in> set (filters ?q)"
    by (simp add: filters_fetchFiles_query)
  show "F \<in> set (files_table be)" if "F \<in> set (files (fst (fetchFiles p st be)))" for F
    using run_select_scoped [OF mem _ pl] that unfolding fs by blast
  show "visible_to (uid u) em F" if "F \<in> set (files (fst (fetchFiles p st be)))" for F
    using run_select_scoped [OF mem _ pl] that unfolding fs by blast
  assume plain: "\<not> truthy (fileType p) \<and> \<not> truthy (searchQuery p) \<and> \<not> limit_applies (limit p)"
  then have "filters ?q = [Or (or_string (uid u) em)]"
    and "limit_to ?q = None"
    by (simp_all add: filters_fetchFiles_query limit_to_fetchFiles_query)
  then show "F \<in> set (files (fst (fetchFiles p st be))) \<longleftrightarrow>
               F \<in> set (files_table be) \<and> visible_to (uid u) em F" for F
    unfolding fs by (rule run_select_scope_only) (rule pl)+
next
  let ?g = "getFiles_query (uid u) em"
  assume ok: "fails be (Select ?g) = None"
  have "fst (getFiles parseStringify (Some (uid u)) (Some em) be)
          = Returns (parseStringify (Some (run_select ?g (files_table be))))"
    using assms(1-4) ok by (simp add: getFiles_resolved)
  moreover have "F \<in> set (run_select ?g (files_table be)) \<longleftrightarrow>
                   F \<in> set (files_table be) \<and> visible_to (uid u) em F" for F
    by (rule run_select_scope_only)
       (simp_all add: getFiles_query_def order_q_def or_q_def select_all_def assms(4-6))
  ultimately show "\<exists>rows. fst (getFiles parseStringify (Some (uid u)) (Some em) be)
                      = Returns (parseStringify (Some rows)) \<and>
              (\<forall>F. F \<in> set rows \<longleftrightarrow> F \<in> set (files_table be) \<and> visible_to (uid u) em F)"
    by blast
qed

lemmas ex_defs = signed_in_def store_def alice_def fetchFiles_query_def no_params_def
      limit_applies_def finalSortBy_def sortBy_or_default_def allowedSortColumns_def
      or_q_def order_q_def limit_q_def eq_q_def select_all_def matching_def run_select_def
      or_string_def parse_cond_def Let_def plain_def mallory_def row_team_def
      row_own_def row_shared_def row_other_def col_text_def sort_text_def
      less_eq_char_def less_char_def db_select_def visible_to_def getFiles_query_def

theorem fetchFiles_scoped_witness:
  "user signed_in = Some alice \<and> email alice = Some ''alice@example.org'' \<and> uid alice \<noteq> [] \<and>
   plain (uid alice) \<and> plain ''alice@example.org'' \<and>
   fails store (Select (fetchFiles_query (uid alice) ''alice@example.org'' no_params)) = None \<and>
   fails store (Select (getFiles_query (uid alice) ''alice@example.org'')) = None \<and>
   files (fst (fetchFiles no_params signed_in store)) = [row_shared, row_own] \<and>
   visible_to (uid alice) ''alice@example.org'' row_own \<and>
   visible_to (uid alice) ''alice@example.org'' row_shared \<and>
   \<not> visible_to (uid alice) ''alice@example.org'' row_other \<and>
   fst (getFiles (\<lambda>d. d) (Some (uid alice)) (Some ''alice@example.org'') store)
     = Returns (Some [row_shared, row_own])"
  using fetchFiles_scoped [of signed_in alice "''alice@example.org''" store no_params "\<lambda>d. d"]
  by (simp add: ex_defs fetchFiles_def getFiles_def)

text \<open>
  C1 as stated fails in both directions. With the type filter \<open>text/plain\<close>, the user's own
  \<open>image/png\<close> row satisfies the predicate and is not in the list. And for a caller whose
  email holds a comma, the store reads the pasted email as two array elements:
  \<open>getFiles\<close>, and \<open>fetchFiles\<close> of \<open>Index.tsx\<close> alike, return another user's row that is
  shared with the two addresses and not with the caller's email.
\<close>

theorem fetchFiles_filtered_counterexample:
  "user signed_in = Some alice \<and> email alice = Some ''alice@example.org'' \<and>
   row_own \<in> set (files_table store) \<and>
   visible_to (uid alice) ''alice@example.org'' row_own \<and>
   row_own \<notin> set (files (fst (fetchFiles (no_params\<lparr>fileType := Some ''text/plain''\<rparr>)
       signed_in store))) \<and>
   \<not> plain ''alice@example.org,carol@example.org'' \<and>
   \<not> visible_to (uid mallory) ''alice@example.org,carol@example.org'' row_team \<and>
   fst (getFiles (\<lambda>d. d) (Some (uid mallory)) (email mallory) (store\<lparr>files_table := [row_team]\<rparr>))
     = Returns (Some [row_team]) \<and>
   files (fst (fetchFiles no_params (signed_in\<lparr>user := Some mallory\<rparr>)
      (store\<lparr>files_table := [row_team]\<rparr>))) = [row_team]"
  by (simp add: ex_defs fetchFiles_def getFiles_def getFiles_query_def)

text \<open>
  C2 at the earlier screen's \<open>fetchFiles\<close>, with no user resolved: it sends a select with
  no filter at all and replaces the list with every row of the table, another user's
  unshared row among them.
\<close>

theorem fetchFiles_part_000_unscoped:
  "user (signed_in\<lparr>user := None\<rparr>) = None \<and>
   requests (snd (fetchFiles_part_000 (signed_in\<lparr>user := None\<rparr>) store))
     = [Select \<lparr>filters = [], order_by = Some (''created_at'', False), limit_to = None\<rparr>] \<and>
   files (fst (fetchFiles_part_000 (signed_in\<lparr>user := None\<rparr>) store))
     = [row_other, row_shared, row_own] \<and>
   files (fst (fetchFiles_part_000 (signed_in\<lparr>user := None\<rparr>) store))
     \<noteq> files (signed_in\<lparr>user := None\<rparr>)"
  by (simp add: ex_defs fetchFiles_part_000_def)

text \<open>
  The other two variants do not query without a user: \<open>fetchFiles\<close> of \<open>Index.tsx\<close>
  returns with nothing changed, \<open>getFiles\<close> throws before it sends anything.
\<close>

lemma fetchFiles_unresolved:
  "user st = None \<or> (\<exists>u. user st = Some u \<and> (uid u = [] \<or> email u = None \<or> email u = Some []))
   \<Longrightarrow> fetchFiles p st be = (st, be)"
  by (auto simp: fetchFiles_def split: option.splits)

lemma getFiles_unresolved:
  "\<not> truthy userId \<or> \<not> truthy user_email \<Longrightarrow>
   snd (getFiles ps userId user_email be) = be \<and>
   (\<exists>m. fst (getFiles ps userId user_email be) = Throws m)"
  by (auto simp: getFiles_def)

text \<open>
  C8. When the store answers the query of \<open>fetchFiles\<close> with an error, in \<open>Index.tsx\<close>
  and in the earlier screen alike, the only change to the state is one more
  notification, which carries the error's message; the list is the one from before.
\<close>

theorem fetch_error_keeps_list:
  "(user st = Some u \<and> email u = Some em \<and> uid u \<noteq> [] \<and> em \<noteq> [] \<and>
    fails be (Select (fetchFiles_query (uid u) em p)) = Some m \<longrightarrow>
      fst (fetchFiles p st be) = st\<lparr>toasts := toasts st @ [fetch_error_toast m]\<rparr> \<and>
      files (fst (fetchFiles p st be)) = files st \<and>
      description (last (toasts (fst (fetchFiles p st be)))) = m) \<and>
   (fails be (Select (order_q ''created_at'' False select_all)) = Some m \<longrightarrow>
      fst (fetchFiles_part_000 st be) = st\<lparr>toasts := toasts st @ [fetch_error_toast m]\<rparr> \<and>
      files (fst (fetchFiles_part_000 st be)) = files st \<and>
      description (last (toasts (fst (fetchFiles_part_000 st be)))) = m)"
  by (simp add: fetchFiles_resolved fetchFiles_part_000_def db_select_def fetch_error_toast_def)

theorem fetch_error_keeps_list_witness:
  "fails (store\<lparr>fails := (\<lambda>_. Some ''timeout'')\<rparr>)
      (Select (fetchFiles_query (uid alice) ''alice@example.org'' no_params)) = Some ''timeout'' \<and>
   fst (fetchFiles no_params (signed_in\<lparr>files := [row_own]\<rparr>) (store\<lparr>fails := (\<lambda>_. Some ''timeout'')\<rparr>))
     = signed_in\<lparr>files := [row_own], toasts := [fetch_error_toast ''timeout'']\<rparr> \<and>
   fst (fetchFiles_part_000 (signed_in\<lparr>files := [row_own]\<rparr>) (store\<lparr>fails := (\<lambda>_. Some ''timeout'')\<rparr>))
     = signed_in\<lparr>files := [row_own], toasts := [fetch_error_toast ''timeout'']\<rparr>"
  using fetch_error_keeps_list [of "signed_in\<lparr>files := [row_own]\<rparr>" alice "''alice@example.org''"
      "store\<lparr>fails := (\<lambda>_. Some ''timeout'')\<rparr>" no_params "''timeout''"]
  by (simp add: signed_in_def store_def alice_def)

section \<open>Upload: storage key, metadata row, failures\<close>

subsection \<open>The extension that \<open>split\<close> and \<open>pop\<close> derive\<close>

lemma js_split_nonempty: "js_split c s \<noteq> []"
  by (induction s) (auto split: list.splits)

lemma js_split_no_sep: "c \<notin> set s \<Longrightarrow> js_split c s = [s]"
  by (induction s) auto

lemma js_split_at_sep: "js_split c (a @ c # b) = js_split c a @ js_split c b"
proof (induction a)
  case Nil
  then show ?case by simp
next
  case (Cons x a)
  obtain s ss where "js_split c a = s # ss"
    using js_split_nonempty [of c a] by (cases "js_split c a") auto
  with Cons show ?case by simp
qed

lemma takeWhile_no_sep: "c \<notin> set s \<Longrightarrow> takeWhile (\<lambda>x. x \<noteq> c) s = s"
  by (induction s) auto

lemma takeWhile_until_sep: "c \<notin> set b \<Longrightarrow> takeWhile (\<lambda>x. x \<noteq> c) (b @ c # a) = b"
  by (induction b) auto

lemma last_js_split: "last (js_split CHR ''.'' s) = after_last_dot s"
proof (cases "CHR ''.'' \<in> set s")
  case False
  then show ?thesis by (simp add: js_split_no_sep after_last_dot_def takeWhile_no_sep)
next
  case True
  then obtain a b where s: "s = a @ CHR ''.'' # b" and b: "CHR ''.'' \<notin> set b"
    using split_list_last by fastforce
  have "last (js_split CHR ''.'' s) = b"
    by (simp add: s js_split_at_sep js_split_nonempty js_split_no_sep [OF b])
  moreover have "after_last_dot s = b"
    using b by (simp add: s after_last_dot_def takeWhile_until_sep)
  ultimately show ?thesis by simp
qed

lemma fileExt_eq: "fileExt s = Some (after_last_dot s)"
  by (simp add: fileExt_def js_pop_def js_split_nonempty last_js_split)

lemma after_last_dot_no_dot: "CHR ''.'' \<notin> set s \<Longrightarrow> after_last_dot s = s"
  by (simp add: after_last_dot_def takeWhile_no_sep)

lemma after_last_dot_dotted: "CHR ''.'' \<notin> set b \<Longrightarrow> after_last_dot (a @ ''.'' @ b) = b"
  by (simp add: after_last_dot_def takeWhile_until_sep)

lemma after_last_dot_free: "CHR ''.'' \<notin> set (after_last_dot s)"
  unfolding after_last_dot_def using set_takeWhileD by fastforce

lemma or_else_Some: "or_else (Some s) [] = s"
  by (simp add: or_else_def)

lemma fileName_eq: "fileName uuid s = uuid @ ''.'' @ after_last_dot s"
  by (simp add: fileName_def fileExt_eq in_template_def)

lemma upload_insert_extension: "ins_extension (upload_insert f u (fileExt (name f)) url) = after_last_dot (name f)"
  by (simp add: upload_insert_def fileExt_eq or_else_Some)

lemma after_last_dot_empty_iff: "after_last_dot s = [] \<longleftrightarrow> s = [] \<or> (\<exists>stem. s = stem @ ''.'')"
proof
  assume e: "after_last_dot s = []"
  show "s = [] \<or> (\<exists>stem. s = stem @ ''.'')"
  proof (cases s rule: rev_cases)
    case Nil
    then show ?thesis by simp
  next
    case (snoc ys y)
    with e have "y = CHR ''.''" by (simp add: after_last_dot_def split: if_splits)
    with snoc show ?thesis by simp
  qed
next
  assume "s = [] \<or> (\<exists>stem. s = stem @ ''.'')"
  then show "after_last_dot s = []" by (auto simp: after_last_dot_def)
qed

subsection \<open>What a fetch leaves alone\<close>

lemma fetchFiles_backend:
  "files_table (snd (fetchFiles p st be)) = files_table be \<and>
   objects (snd (fetchFiles p st be)) = objects be \<and>
   fails (snd (fetchFiles p st be)) = fails be \<and>
   (snd (fetchFiles p st be) = be \<or>
    (\<exists>q. snd (fetchFiles p st be) = be\<lparr>requests := requests be @ [Select q]\<rparr>))"
  by (auto simp: fetchFiles_def db_select_def split: option.splits)

lemma fetchFiles_state:
  "user (fst (fetchFiles p st be)) = user st \<and>
   selectedFile (fst (fetchFiles p st be)) = selectedFile st \<and>
   shareEmail (fst (fetchFiles p st be)) = shareEmail st \<and>
   selectedFileId (fst (fetchFiles p st be)) = selectedFileId st \<and>
   isUploading (fst (fetchFiles p st be)) = isUploading st"
  by (auto simp: fetchFiles_def db_select_def split: option.splits)

lemma fetchFiles_part_000_backend:
  "files_table (snd (fetchFiles_part_000 st be)) = files_table be \<and>
   objects (snd (fetchFiles_part_000 st be)) = objects be \<and>
   (\<exists>q. snd (fetchFiles_part_000 st be) = be\<lparr>requests := requests be @ [Select q]\<rparr>)"
  by (auto simp: fetchFiles_part_000_def db_select_def split: option.splits)

subsection \<open>The three ways an upload ends\<close>

lemma handleUpload_with_put_fails:
  assumes "selectedFile st = Some f" "user st = Some u"
    and "error (fst (storage_upload (fileName uuid (name f)) f be)) = Some m"
  shows "handleUpload_with refresh uuid st be =
     (st\<lparr>isUploading := False, toasts := toasts st @ [upload_error_toast m]\<rparr>,
      be\<lparr>requests := requests be @ [Upload (fileName uuid (name f)) f]\<rparr>)"
  using assms
  by (auto simp: handleUpload_with_def storage_upload_def Let_def split: option.splits if_splits)

lemma storage_upload_ok:
  assumes "error (fst (storage_upload k f be)) = None"
  shows "storage_upload k f be =
     (\<lparr>data = Some (), error = None\<rparr>,
      be\<lparr>requests := requests be @ [Upload k f], objects := objects be @ [(k, f)]\<rparr>)"
    and "fails be (Upload k f) = None" and "k \<notin> set (map fst (objects be))"
  using assms by (auto simp: storage_upload_def Let_def split: option.splits if_splits)

lemma handleUpload_with_insert_fails:
  assumes "selectedFile st = Some f" "user st = Some u"
    and "error (fst (storage_upload (fileName uuid (name f)) f be)) = None"
    and "fails be (Insert (upload_insert f u (fileExt (name f))
            (getPublicUrl be (fileName uuid (name f))))) = Some m"
  shows "handleUpload_with refresh uuid st be =
     (st\<lparr>isUploading := False, toasts := toasts st @ [upload_error_toast m]\<rparr>,
      be\<lparr>requests := requests be @ [Upload (fileName uuid (name f)) f,
              Insert (upload_insert f u (fileExt (name f))
                 (getPublicUrl be (fileName uuid (name f))))],
         objects := objects be @ [(fileName uuid (name f), f)]\<rparr>)"
  using assms(1,2,4) storage_upload_ok(1) [OF assms(3)]
  by (simp add: handleUpload_with_def Let_def db_insert_def getPublicUrl_def)

lemma handleUpload_with_success:
  assumes "selectedFile st = Some f" "user st = Some u"
    and "error (fst (storage_upload (fileName uuid (name f)) f be)) = None"
    and "fails be (Insert (upload_insert f u (fileExt (name f))
            (getPublicUrl be (fileName uuid (name f))))) = None"
  shows "handleUpload_with refresh uuid st be =
     (let v = upload_insert f u (fileExt (name f)) (getPublicUrl be (fileName uuid (name f)));
          (st3, be3) = refresh
             (st\<lparr>isUploading := True, toasts := toasts st @ [upload_success_toast],
                 selectedFile := None\<rparr>)
             (be\<lparr>objects := objects be @ [(fileName uuid (name f), f)],
                 requests := requests be @ [Upload (fileName uuid (name f)) f, Insert v],
                 files_table := files_table be @ [new_row be v]\<rparr>)
      in (st3\<lparr>isUploading := False\<rparr>, be3))"
  using assms(1,2,4) storage_upload_ok(1) [OF assms(3)]
  by (simp add: handleUpload_with_def Let_def db_insert_def getPublicUrl_def new_row_def)


lemma handleUpload_with_success_backend:
  assumes t: "\<And>s b. files_table (snd (refresh s b)) = files_table b"
    and ob: "\<And>s b. objects (snd (refresh s b)) = objects b"
    and rq: "\<And>s b. \<exists>rest. requests (snd (refresh s b)) = requests b @ rest"
    and "selectedFile st = Some f" and "user st = Some u"
    and "error (fst (storage_upload (fileName uuid (name f)) f be)) = None"
    and "fails be (Insert (upload_insert f u (fileExt (name f))
            (getPublicUrl be (fileName uuid (name f))))) = None"
  shows "objects (snd (handleUpload_with refresh uuid st be))
           = objects be @ [(fileName uuid (name f), f)] \<and>
         files_table (snd (handleUpload_with refresh uuid st be)) = files_table be @
           [new_row be (upload_insert f u (fileExt (name f))
              (getPublicUrl be (fileName uuid (name f))))] \<and>
         (\<exists>rest. requests (snd (handleUpload_with refresh uuid st be)) = requests be @
           [Upload (fileName uuid (name f)) f,
            Insert (upload_insert f u (fileExt (name f))
              (getPublicUrl be (fileName uuid (name f))))] @ rest)"
proof -
  note run = handleUpload_with_success [OF assms(4-7), of refresh]
  have "objects (snd (handleUpload_with refresh uuid st be))
           = objects be @ [(fileName uuid (name f), f)]"
    by (simp add: run Let_def split_beta ob)
  moreover have "files_table (snd (handleUpload_with refresh uuid st be)) = files_table be @
           [new_row be (upload_insert f u (fileExt (name f))
              (getPublicUrl be (fileName uuid (name f))))]"
    by (simp add: run Let_def split_beta t)
  moreover have "\<exists>rest. requests (snd (handleUpload_with refresh uuid st be)) = requests be @
           [Upload (fileName uuid (name f)) f,
            Insert (upload_insert f u (fileExt (name f))
              (getPublicUrl be (fileName uuid (name f))))] @ rest"
    using rq [of "st\<lparr>isUploading := True, toasts := toasts st @ [upload_success_toast],
                 selectedFile := None\<rparr>"
        "be\<lparr>objects := objects be @ [(fileName uuid (name f), f)],
                 requests := requests be @ [Upload (fileName uuid (name f)) f,
                   Insert (upload_insert f u (fileExt (name f))
                     (getPublicUrl be (fileName uuid (name f))))],
                 files_table := files_table be @ [new_row be (upload_insert f u (fileExt (name f))
                     (getPublicUrl be (fileName uuid (name f))))]\<rparr>"]
    by (simp add: run Let_def split_beta)
  ultimately show ?thesis by blast
qed

lemma handleUpload_success_backend:
  assumes "h = handleUpload \<or> h = handleUpload_part_000"
    and "selectedFile st = Some f" and "user st = Some u"
    and "error (fst (storage_upload (fileName uuid (name f)) f be)) = None"
    and "fails be (Insert (upload_insert f u (fileExt (name f))
            (getPublicUrl be (fileName uuid (name f))))) = None"
  shows "objects (snd (h uuid st be)) = objects be @ [(fileName uuid (name f), f)] \<and>
         files_table (snd (h uuid st be)) = files_table be @
           [new_row be (upload_insert f u (fileExt (name f))
              (getPublicUrl be (fileName uuid (name f))))] \<and>
         (\<exists>rest. requests (snd (h uuid st be)) = requests be @
           [Upload (fileName uuid (name f)) f,
            Insert (upload_insert f u (fileExt (name f))
              (getPublicUrl be (fileName uuid (name f))))] @ rest)"
proof (rule disjE [OF assms(1)])
  assume a: "h = handleUpload"
  have rq: "\<exists>rest. requests (snd (fetchFiles no_params s b)) = requests b @ rest" for s b
    using fetchFiles_backend [of no_params s b] by auto
  show ?thesis
    unfolding a handleUpload_def
    by (rule handleUpload_with_success_backend [OF _ _ rq assms(2-5)])
       (simp_all add: fetchFiles_backend)
next
  assume a: "h = handleUpload_part_000"
  have rq: "\<exists>rest. requests (snd (fetchFiles_part_000 s b)) = requests b @ rest" for s b
    using fetchFiles_part_000_backend [of s b] by auto
  show ?thesis
    unfolding a handleUpload_part_000_def
    by (rule handleUpload_with_success_backend [OF _ _ rq assms(2-5)])
       (simp_all add: fetchFiles_part_000_backend)
qed

text \<open>
  What every upload that succeeds does, in \<open>Index.tsx\<close> and in the earlier
  screen: the storage key is the token, a dot, and the last dot-separated piece of the
  original name; the object is stored under that key and the public URL of the new row
  points to it; the new row keeps the original name, and its extension is that piece.
  When the name is \<open>stem.ext\<close> with no dot in \<open>ext\<close>, the piece is \<open>ext\<close>, the part after the
  last dot, and the key is the token, a dot and \<open>ext\<close>, whatever the stem. When the name
  has no dot, the piece is the whole name.
\<close>

lemma upload_key_and_row:
  assumes "h = handleUpload \<or> h = handleUpload_part_000"
    and "selectedFile st = Some f" and "user st = Some u"
    and "error (fst (storage_upload (fileName uuid (name f)) f be)) = None"
    and "fails be (Insert (upload_insert f u (fileExt (name f))
            (getPublicUrl be (fileName uuid (name f))))) = None"
  shows "fileName uuid (name f) = uuid @ ''.'' @ after_last_dot (name f) \<and>
         CHR ''.'' \<notin> set (after_last_dot (name f)) \<and>
         objects (snd (h uuid st be)) = objects be @ [(uuid @ ''.'' @ after_last_dot (name f), f)] \<and>
         (\<exists>row. files_table (snd (h uuid st be)) = files_table be @ [row] \<and>
            filename row = name f \<and> extension row = after_last_dot (name f) \<and>
            public_url row = storage_url be @ uuid @ ''.'' @ after_last_dot (name f) \<and>
            type row = mime f \<and> user_id row = uid u) \<and>
         (\<forall>stem ext. name f = stem @ ''.'' @ ext \<and> CHR ''.'' \<notin> set ext \<longrightarrow>
            after_last_dot (name f) = ext \<and> fileName uuid (name f) = uuid @ ''.'' @ ext) \<and>
         (CHR ''.'' \<notin> set (name f) \<longrightarrow> after_last_dot (name f) = name f)"
proof -
  let ?v = "upload_insert f u (fileExt (name f)) (getPublicUrl be (fileName uuid (name f)))"
  have row: "filename (new_row be ?v) = name f \<and>
        extension (new_row be ?v) = after_last_dot (name f) \<and>
        public_url (new_row be ?v) = storage_url be @ uuid @ ''.'' @ after_last_dot (name f) \<and>
        type (new_row be ?v) = mime f \<and> user_id (new_row be ?v) = uid u"
    by (simp add: new_row_def upload_insert_def fileExt_eq or_else_Some getPublicUrl_def
        fileName_eq)
  have "\<exists>row. files_table (snd (h uuid st be)) = files_table be @ [row] \<and>
            filename row = name f \<and> extension row = after_last_dot (name f) \<and>
            public_url row = storage_url be @ uuid @ ''.'' @ after_last_dot (name f) \<and>
            type row = mime f \<and> user_id row = uid u"
    using handleUpload_success_backend [OF assms] row by blast
  moreover have "objects (snd (h uuid st be))
      = objects be @ [(uuid @ ''.'' @ after_last_dot (name f), f)]"
    using handleUpload_success_backend [OF assms] by (simp add: fileName_eq)
  moreover have "after_last_dot (name f) = ext \<and> fileName uuid (name f) = uuid @ ''.'' @ ext"
    if "name f = stem @ ''.'' @ ext \<and> CHR ''.'' \<notin> set ext" for stem ext
    using that after_last_dot_dotted [of ext stem] by (simp add: fileName_eq)
  ultimately show ?thesis
    by (simp add: fileName_eq after_last_dot_free after_last_dot_no_dot)
qed

lemmas up_defs = signed_in_def store_def alice_def a_txt_def readme_def
  handleUpload_def handleUpload_with_def storage_upload_def db_insert_def getPublicUrl_def
  upload_insert_def new_row_def fileName_def fileExt_def js_pop_def in_template_def or_else_def
  fetchFiles_def db_select_def fetchFiles_query_def no_params_def
  limit_applies_def finalSortBy_def sortBy_or_default_def allowedSortColumns_def
  or_q_def order_q_def select_all_def or_string_def parse_cond_def

lemma upload_key_and_row_a_txt:
  "selectedFile (signed_in\<lparr>selectedFile := Some a_txt\<rparr>) = Some a_txt \<and>
   user (signed_in\<lparr>selectedFile := Some a_txt\<rparr>) = Some alice \<and>
   error (fst (storage_upload (fileName ''tok'' (name a_txt)) a_txt store)) = None \<and>
   fileName ''tok'' (name a_txt) = ''tok.txt'' \<and>
   objects (snd (handleUpload ''tok'' (signed_in\<lparr>selectedFile := Some a_txt\<rparr>) store))
     = [(''tok.txt'', a_txt)] \<and>
   files_table (snd (handleUpload ''tok'' (signed_in\<lparr>selectedFile := Some a_txt\<rparr>) store))
     = [row_own, row_shared, row_other,
        \<lparr>row_id = ''f9'', filename = ''a.txt'', public_url = ''https://storage.example/tok.txt'',
         type = ''text/plain'', extension = ''txt'', shared_with = None,
         fullname = ''alice@example.org'', created_at = ''2024-03-01'', user_id = ''u1''\<rparr>]"
  using upload_key_and_row [of handleUpload "signed_in\<lparr>selectedFile := Some a_txt\<rparr>" a_txt alice
      "''tok''" store]
  by (simp add: up_defs Let_def)

text \<open>
  C5 at a file named \<open>README\<close>, uploaded with the token \<open>tok\<close>: the name has no dot, so it
  has no extension, yet the object is stored under \<open>tok.README\<close>, a key that ends with the
  whole original name, and the row's extension is \<open>README\<close>.
\<close>

theorem upload_readme_keeps_name:
  "CHR ''.'' \<notin> set (name readme) \<and>
   fileName ''tok'' (name readme) = ''tok.README'' \<and>
   suffix (name readme) (fileName ''tok'' (name readme)) \<and>
   objects (snd (handleUpload ''tok'' (signed_in\<lparr>selectedFile := Some readme\<rparr>) store))
     = [(''tok.README'', readme)] \<and>
   extension (last (files_table
      (snd (handleUpload ''tok'' (signed_in\<lparr>selectedFile := Some readme\<rparr>) store)))) = ''README''"
  by (simp add: up_defs Let_def suffix_def)


text \<open>
  C10. For a file whose name has no dot, the derived extension is the whole name (not
  empty, for the non-empty names that a file input gives), the storage key is the token,
  a dot and the whole name, and a successful upload stores the object under that key
  and writes the whole name as the row's extension. For a non-empty name, the extension
  is empty exactly when the name ends with a dot.
\<close>

theorem upload_name_without_dot:
  "(CHR ''.'' \<notin> set (name f) \<longrightarrow>
      fileExt (name f) = Some (name f) \<and>
      ins_extension (upload_insert f u (fileExt (name f)) url) = name f \<and>
      fileName uuid (name f) = uuid @ ''.'' @ name f \<and>
      (name f \<noteq> [] \<longrightarrow> ins_extension (upload_insert f u (fileExt (name f)) url) \<noteq> []) \<and>
      ((h = handleUpload \<or> h = handleUpload_part_000) \<and>
       selectedFile st = Some f \<and> user st = Some u \<and>
       error (fst (storage_upload (fileName uuid (name f)) f be)) = None \<and>
       fails be (Insert (upload_insert f u (fileExt (name f))
            (getPublicUrl be (fileName uuid (name f))))) = None \<longrightarrow>
         objects (snd (h uuid st be)) = objects be @ [(uuid @ ''.'' @ name f, f)] \<and>
         extension (last (files_table (snd (h uuid st be)))) = name f)) \<and>
   (name f \<noteq> [] \<longrightarrow>
      (ins_extension (upload_insert f u (fileExt (name f)) url) = [] \<longleftrightarrow>
       (\<exists>stem. name f = stem @ ''.'')))"
proof (intro conjI impI)
  show "(ins_extension (upload_insert f u (fileExt (name f)) url) = []) \<longleftrightarrow>
       (\<exists>stem. name f = stem @ ''.'')" if "name f \<noteq> []"
    using that by (simp add: upload_insert_extension after_last_dot_empty_iff)
next
  assume nd: "CHR ''.'' \<notin> set (name f)"
  show "fileExt (name f) = Some (name f)"
    by (simp add: fileExt_eq after_last_dot_no_dot [OF nd])
  show e: "ins_extension (upload_insert f u (fileExt (name f)) url) = name f"
    by (simp add: upload_insert_extension after_last_dot_no_dot [OF nd])
  show k: "fileName uuid (name f) = uuid @ ''.'' @ name f"
    by (simp add: fileName_eq after_last_dot_no_dot [OF nd])
  show "ins_extension (upload_insert f u (fileExt (name f)) url) \<noteq> []" if "name f \<noteq> []"
    using that by (simp add: e)
  assume ok: "(h = handleUpload \<or> h = handleUpload_part_000) \<and>
       selectedFile st = Some f \<and> user st = Some u \<and>
       error (fst (storage_upload (fileName uuid (name f)) f be)) = None \<and>
       fails be (Insert (upload_insert f u (fileExt (name f))
            (getPublicUrl be (fileName uuid (name f))))) = None"
  have b: "objects (snd (h uuid st be)) = objects be @ [(fileName uuid (name f), f)] \<and>
         files_table (snd (h uuid st be)) = files_table be @
           [new_row be (upload_insert f u (fileExt (name f))
              (getPublicUrl be (fileName uuid (name f))))]"
    using handleUpload_success_backend [of h st f u uuid be, OF ok [THEN conjunct1]
        ok [THEN conjunct2, THEN conjunct1] ok [THEN conjunct2, THEN conjunct2, THEN conjunct1]
        ok [THEN conjunct2, THEN conjunct2, THEN conjunct2, THEN conjunct1]
        ok [THEN conjunct2, THEN conjunct2, THEN conjunct2, THEN conjunct2]]
    by simp
  from b show "objects (snd (h uuid st be)) = objects be @ [(uuid @ ''.'' @ name f, f)]"
    by (simp add: k)
  from b show "extension (last (files_table (snd (h uuid st be)))) = name f"
    by (simp add: new_row_def upload_insert_extension after_last_dot_no_dot [OF nd])
qed

theorem upload_name_without_dot_witness:
  "CHR ''.'' \<notin> set (name readme) \<and> name readme \<noteq> [] \<and>
   selectedFile (signed_in\<lparr>selectedFile := Some readme\<rparr>) = Some readme \<and>
   user (signed_in\<lparr>selectedFile := Some readme\<rparr>) = Some alice \<and>
   error (fst (storage_upload (fileName ''tok'' (name readme)) readme store)) = None \<and>
   fileExt (name readme) = Some ''README'' \<and>
   fileName ''tok'' (name readme) = ''tok.README'' \<and>
   objects (snd (handleUpload ''tok'' (signed_in\<lparr>selectedFile := Some readme\<rparr>) store))
     = [(''tok.README'', readme)] \<and>
   extension (last (files_table
     (snd (handleUpload ''tok'' (signed_in\<lparr>selectedFile := Some readme\<rparr>) store)))) = ''README'' \<and>
   ins_extension (upload_insert (readme\<lparr>name := ''notes.''\<rparr>) alice
     (fileExt (name (readme\<lparr>name := ''notes.''\<rparr>))) []) = []"
  using upload_name_without_dot [of readme alice "[]" "''tok''" handleUpload
      "signed_in\<lparr>selectedFile := Some readme\<rparr>" store]
    upload_name_without_dot [of "readme\<lparr>name := ''notes.''\<rparr>" alice "[]"]
  by (simp add: up_defs Let_def)

text \<open>
  C6. For an upload of a selected file by a signed-in user (\<open>handleUpload\<close> of
  \<open>Index.tsx\<close>): when the storage write fails, the only request is the upload, no row is
  inserted, and one notification is added, titled \<open>Error uploading file\<close> and carrying
  the error's message; when the insert fails after the storage write, the same
  notification with that error's message is added, the stored object stays, and nothing is
  requested after the insert; in every outcome \<open>isUploading\<close> ends false; a select for
  the list is sent only when both calls succeeded, in which case the upload ends with
  \<open>fetchFiles()\<close>.
\<close>

theorem upload_failure_handling:
  assumes "selectedFile st = Some f" and "user st = Some u"
  shows "(\<forall>m. error (fst (storage_upload (fileName uuid (name f)) f be)) = Some m \<longrightarrow>
            handleUpload uuid st be =
              (st\<lparr>isUploading := False, toasts := toasts st @ [upload_error_toast m]\<rparr>,
               be\<lparr>requests := requests be @ [Upload (fileName uuid (name f)) f]\<rparr>) \<and>
            toasts (fst (handleUpload uuid st be)) = toasts st @
              [\<lparr>title = ''Error uploading file'', description = m, variant = Some ''destructive''\<rparr>] \<and>
            files_table (snd (handleUpload uuid st be)) = files_table be \<and>
            files (fst (handleUpload uuid st be)) = files st) \<and>
         (\<forall>m. error (fst (storage_upload (fileName uuid (name f)) f be)) = None \<and>
              fails be (Insert (upload_insert f u (fileExt (name f))
                (getPublicUrl be (fileName uuid (name f))))) = Some m \<longrightarrow>
            handleUpload uuid st be =
              (st\<lparr>isUploading := False, toasts := toasts st @ [upload_error_toast m]\<rparr>,
               be\<lparr>requests := requests be @ [Upload (fileName uuid (name f)) f,
                       Insert (upload_insert f u (fileExt (name f))
                         (getPublicUrl be (fileName uuid (name f))))],
                  objects := objects be @ [(fileName uuid (name f), f)]\<rparr>) \<and>
            toasts (fst (handleUpload uuid st be)) = toasts st @
              [\<lparr>title = ''Error uploading file'', description = m, variant = Some ''destructive''\<rparr>] \<and>
            files_table (snd (handleUpload uuid st be)) = files_table be \<and>
            files (fst (handleUpload uuid st be)) = files st) \<and>
         isUploading (fst (handleUpload uuid st be)) = False \<and>
         ((\<exists>q. Select q \<in> set (drop (length (requests be))
                   (requests (snd (handleUpload uuid st be))))) \<longrightarrow>
            error (fst (storage_upload (fileName uuid (name f)) f be)) = None \<and>
            fails be (Insert (upload_insert f u (fileExt (name f))
                (getPublicUrl be (fileName uuid (name f))))) = None) \<and>
         (error (fst (storage_upload (fileName uuid (name f)) f be)) = None \<and>
          fails be (Insert (upload_insert f u (fileExt (name f))
                (getPublicUrl be (fileName uuid (name f))))) = None \<longrightarrow>
            handleUpload uuid st be =
              (let v = upload_insert f u (fileExt (name f))
                         (getPublicUrl be (fileName uuid (name f)));
                   (st3, be3) = fetchFiles no_params
                     (st\<lparr>isUploading := True, toasts := toasts st @ [upload_success_toast],
                         selectedFile := None\<rparr>)
                     (be\<lparr>objects := objects be @ [(fileName uuid (name f), f)],
                         requests := requests be @ [Upload (fileName uuid (name f)) f, Insert v],
                         files_table := files_table be @ [new_row be v]\<rparr>)
               in (st3\<lparr>isUploading := False\<rparr>, be3)))"
proof -
  let ?k = "fileName uuid (name f)"
  let ?v = "upload_insert f u (fileExt (name f)) (getPublicUrl be ?k)"
  let ?up = "error (fst (storage_upload ?k f be))"
  have A: "handleUpload uuid st be =
              (st\<lparr>isUploading := False, toasts := toasts st @ [upload_error_toast m]\<rparr>,
               be\<lparr>requests := requests be @ [Upload ?k f]\<rparr>)" if "?up = Some m" for m
    unfolding handleUpload_def by (rule handleUpload_with_put_fails [OF assms that])
  have B: "handleUpload uuid st be =
              (st\<lparr>isUploading := False, toasts := toasts st @ [upload_error_toast m]\<rparr>,
               be\<lparr>requests := requests be @ [Upload ?k f, Insert ?v],
                  objects := objects be @ [(?k, f)]\<rparr>)"
    if "?up = None" "fails be (Insert ?v) = Some m" for m
    unfolding handleUpload_def by (rule handleUpload_with_insert_fails [OF assms that])
  have C: "handleUpload uuid st be =
              (let v = ?v;
                   (st3, be3) = fetchFiles no_params
                     (st\<lparr>isUploading := True, toasts := toasts st @ [upload_success_toast],
                         selectedFile := None\<rparr>)
                     (be\<lparr>objects := objects be @ [(?k, f)],
                         requests := requests be @ [Upload ?k f, Insert v],
                         files_table := files_table be @ [new_row be v]\<rparr>)
               in (st3\<lparr>isUploading := False\<rparr>, be3))"
    if "?up = None" "fails be (Insert ?v) = None"
    unfolding handleUpload_def by (rule handleUpload_with_success [OF assms that])
  have busy: "isUploading (fst (handleUpload uuid st be)) = False"
  proof (cases ?up)
    case (Some m)
    then show ?thesis by (simp add: A)
  next
    case None
    show ?thesis
    proof (cases "fails be (Insert ?v)")
      case (Some m)
      with None show ?thesis by (simp add: B)
    next
      case ok: None
      show ?thesis by (simp add: C [OF None ok] Let_def split_beta)
    qed
  qed
  have only: "?up = None \<and> fails be (Insert ?v) = None"
    if "\<exists>q. Select q \<in> set (drop (length (requests be)) (requests (snd (handleUpload uuid st be))))"
  proof (rule ccontr)
    assume "\<not> (?up = None \<and> fails be (Insert ?v) = None)"
    then consider m where "?up = Some m" | m where "?up = None" "fails be (Insert ?v) = Some m"
      by auto
    then show False
    proof cases
      case 1
      with that show False by (simp add: A)
    next
      case 2
      with that show False by (simp add: B)
    qed
  qed
  show ?thesis
  proof (intro conjI allI impI)
    fix m assume a: "?up = Some m"
    show "handleUpload uuid st be =
              (st\<lparr>isUploading := False, toasts := toasts st @ [upload_error_toast m]\<rparr>,
               be\<lparr>requests := requests be @ [Upload ?k f]\<rparr>)"
      by (rule A [OF a])
    show "toasts (fst (handleUpload uuid st be)) = toasts st @
              [\<lparr>title = ''Error uploading file'', description = m, variant = Some ''destructive''\<rparr>]"
      by (simp add: A [OF a] upload_error_toast_def)
    show "files_table (snd (handleUpload uuid st be)) = files_table be"
      by (simp add: A [OF a])
    show "files (fst (handleUpload uuid st be)) = files st"
      by (simp add: A [OF a])
  next
    fix m assume "?up = None \<and> fails be (Insert ?v) = Some m"
    then have a: "?up = None" and b: "fails be (Insert ?v) = Some m" by simp_all
    show "handleUpload uuid st be =
              (st\<lparr>isUploading := False, toasts := toasts st @ [upload_error_toast m]\<rparr>,
               be\<lparr>requests := requests be @ [Upload ?k f, Insert ?v],
                  objects := objects be @ [(?k, f)]\<rparr>)"
      by (rule B [OF a b])
    show "toasts (fst (handleUpload uuid st be)) = toasts st @
              [\<lparr>title = ''Error uploading file'', description = m, variant = Some ''destructive''\<rparr>]"
      by (simp add: B [OF a b] upload_error_toast_def)
    show "files_table (snd (handleUpload uuid st be)) = files_table be"
      by (simp add: B [OF a b])
    show "files (fst (handleUpload uuid st be)) = files st"
      by (simp add: B [OF a b])
  next
    show "isUploading (fst (handleUpload uuid st be)) = False" by (rule busy)
  next
    assume s: "\<exists>q. Select q \<in> set (drop (length (requests be))
                   (requests (snd (handleUpload uuid st be))))"
    show "?up = None" using only [OF s] by (rule conjunct1)
    show "fails be (Insert ?v) = None" using only [OF s] by (rule conjunct2)
  next
    assume "?up = None \<and> fails be (Insert ?v) = None"
    then have a: "?up = None" and b: "fails be (Insert ?v) = None" by simp_all
    show "handleUpload uuid st be =
              (let v = ?v;
                   (st3, be3) = fetchFiles no_params
                     (st\<lparr>isUploading := True, toasts := toasts st @ [upload_success_toast],
                         selectedFile := None\<rparr>)
                     (be\<lparr>objects := objects be @ [(?k, f)],
                         requests := requests be @ [Upload ?k f, Insert v],
                         files_table := files_table be @ [new_row be v]\<rparr>)
               in (st3\<lparr>isUploading := False\<rparr>, be3))"
      by (rule C [OF a b])
  qed
qed


theorem upload_failure_handling_witness:
  "selectedFile (signed_in\<lparr>selectedFile := Some a_txt\<rparr>) = Some a_txt \<and>
   user (signed_in\<lparr>selectedFile := Some a_txt\<rparr>) = Some alice \<and>
   error (fst (storage_upload (fileName ''tok'' (name a_txt)) a_txt
      (refusing is_upload ''quota'' store))) = Some ''quota'' \<and>
   fst (handleUpload ''tok'' (signed_in\<lparr>selectedFile := Some a_txt\<rparr>)
      (refusing is_upload ''quota'' store))
     = signed_in\<lparr>selectedFile := Some a_txt,
         toasts := [\<lparr>title = ''Error uploading file'', description = ''quota'',
                     variant = Some ''destructive''\<rparr>]\<rparr> \<and>
   requests (snd (handleUpload ''tok'' (signed_in\<lparr>selectedFile := Some a_txt\<rparr>)
      (refusing is_upload ''quota'' store))) = [Upload ''tok.txt'' a_txt] \<and>
   files_table (snd (handleUpload ''tok'' (signed_in\<lparr>selectedFile := Some a_txt\<rparr>)
      (refusing is_upload ''quota'' store))) = files_table store \<and>
   error (fst (storage_upload (fileName ''tok'' (name a_txt)) a_txt
      (refusing is_insert ''denied'' store))) = None \<and>
   fst (handleUpload ''tok'' (signed_in\<lparr>selectedFile := Some a_txt\<rparr>)
      (refusing is_insert ''denied'' store))
     = signed_in\<lparr>selectedFile := Some a_txt,
         toasts := [\<lparr>title = ''Error uploading file'', description = ''denied'',
                     variant = Some ''destructive''\<rparr>]\<rparr> \<and>
   objects (snd (handleUpload ''tok'' (signed_in\<lparr>selectedFile := Some a_txt\<rparr>)
      (refusing is_insert ''denied'' store))) = [(''tok.txt'', a_txt)] \<and>
   files_table (snd (handleUpload ''tok'' (signed_in\<lparr>selectedFile := Some a_txt\<rparr>)
      (refusing is_insert ''denied'' store))) = files_table store \<and>
   isUploading (fst (handleUpload ''tok'' (signed_in\<lparr>selectedFile := Some a_txt\<rparr>) store)) = False"
proof -
  have run:
    "selectedFile (signed_in\<lparr>selectedFile := Some a_txt\<rparr>) = Some a_txt \<and>
     user (signed_in\<lparr>selectedFile := Some a_txt\<rparr>) = Some alice \<and>
     error (fst (storage_upload (fileName ''tok'' (name a_txt)) a_txt
        (refusing is_upload ''quota'' store))) = Some ''quota'' \<and>
     fst (handleUpload ''tok'' (signed_in\<lparr>selectedFile := Some a_txt\<rparr>)
        (refusing is_upload ''quota'' store))
       = signed_in\<lparr>selectedFile := Some a_txt,
           toasts := [\<lparr>title = ''Error uploading file'', description = ''quota'',
                       variant = Some ''destructive''\<rparr>]\<rparr> \<and>
     requests (snd (handleUpload ''tok'' (signed_in\<lparr>selectedFile := Some a_txt\<rparr>)
        (refusing is_upload ''quota'' store))) = [Upload ''tok.txt'' a_txt] \<and>
     files_table (snd (handleUpload ''tok'' (signed_in\<lparr>selectedFile := Some a_txt\<rparr>)
        (refusing is_upload ''quota'' store))) = files_table store \<and>
     error (fst (storage_upload (fileName ''tok'' (name a_txt)) a_txt
        (refusing is_insert ''denied'' store))) = None \<and>
     fst (handleUpload ''tok'' (signed_in\<lparr>selectedFile := Some a_txt\<rparr>)
        (refusing is_insert ''denied'' store))
       = signed_in\<lparr>selectedFile := Some a_txt,
           toasts := [\<lparr>title = ''Error uploading file'', description = ''denied'',
                       variant = Some ''destructive''\<rparr>]\<rparr> \<and>
     objects (snd (handleUpload ''tok'' (signed_in\<lparr>selectedFile := Some a_txt\<rparr>)
        (refusing is_insert ''denied'' store))) = [(''tok.txt'', a_txt)] \<and>
     files_table (snd (handleUpload ''tok'' (signed_in\<lparr>selectedFile := Some a_txt\<rparr>)
        (refusing is_insert ''denied'' store))) = files_table store \<and>
     isUploading (fst (handleUpload ''tok'' (signed_in\<lparr>selectedFile := Some a_txt\<rparr>) store)) = False"
    by (simp add: up_defs Let_def refusing_def upload_error_toast_def)
  show ?thesis
    using upload_failure_handling [of "signed_in\<lparr>selectedFile := Some a_txt\<rparr>" a_txt alice "''tok''"
        "refusing is_upload ''quota'' store"]
      upload_failure_handling [of "signed_in\<lparr>selectedFile := Some a_txt\<rparr>" a_txt alice "''tok''"
        "refusing is_insert ''denied'' store"]
      upload_failure_handling [of "signed_in\<lparr>selectedFile := Some a_txt\<rparr>" a_txt alice "''tok''"
        store]
    by - (rule run)
qed

section \<open>Share: append, and what an error leaves\<close>

lemma matching_id: "matching [Eq ''id'' fid] rs = filter (\<lambda>r. row_id r = fid) rs"
  by (simp add: matching_def col_text_def)

lemma holds_id: "list_all (\<lambda>f. holds f r) [Eq ''id'' fid] = (row_id r = fid)"
  by (simp add: col_text_def)

lemma updatedSharedWith_row: "updatedSharedWith (Some (shared_with r)) e = shared_list r @ [e]"
  by (simp add: updatedSharedWith_def shared_list_def split: option.splits)

lemma filter_map_same_id:
  "filter (\<lambda>x. row_id x = fid) (map (\<lambda>x. if row_id x = fid then x\<lparr>shared_with := v\<rparr> else x) rs)
     = map (\<lambda>x. x\<lparr>shared_with := v\<rparr>) (filter (\<lambda>x. row_id x = fid) rs)"
  by (induction rs) auto

lemma snd_db_select_single:
  "snd (db_select_single fs be) = be\<lparr>requests := requests be @ [SelectSingle ''shared_with'' fs]\<rparr>"
  by (simp add: db_select_single_def)

lemma handleShare_read_fails:
  assumes "selectedFileId st = Some fid" "fid \<noteq> []" "shareEmail st \<noteq> []"
    and "error (fst (db_select_single [Eq ''id'' fid] be)) = Some m"
  shows "handleShare st be =
     (st\<lparr>toasts := toasts st @ [share_error_toast m]\<rparr>,
      be\<lparr>requests := requests be @ [SelectSingle ''shared_with'' [Eq ''id'' fid]]\<rparr>)"
  using assms by (simp add: handleShare_def snd_db_select_single split_beta)

lemma handleShare_write_fails:
  assumes "selectedFileId st = Some fid" "fid \<noteq> []" "shareEmail st \<noteq> []"
    and "error (fst (db_select_single [Eq ''id'' fid] be)) = None"
    and "fails be (Update (updatedSharedWith (data (fst (db_select_single [Eq ''id'' fid] be)))
            (shareEmail st)) [Eq ''id'' fid]) = Some m"
  shows "handleShare st be =
     (st\<lparr>toasts := toasts st @ [share_error_toast m]\<rparr>,
      be\<lparr>requests := requests be @ [SelectSingle ''shared_with'' [Eq ''id'' fid],
           Update (updatedSharedWith (data (fst (db_select_single [Eq ''id'' fid] be)))
              (shareEmail st)) [Eq ''id'' fid]]\<rparr>)"
  using assms by (simp add: handleShare_def snd_db_select_single db_update_def split_beta Let_def)

lemma handleShare_success:
  assumes "selectedFileId st = Some fid" "fid \<noteq> []" "shareEmail st \<noteq> []"
    and "error (fst (db_select_single [Eq ''id'' fid] be)) = None"
    and "fails be (Update (updatedSharedWith (data (fst (db_select_single [Eq ''id'' fid] be)))
            (shareEmail st)) [Eq ''id'' fid]) = None"
  shows "handleShare st be =
     fetchFiles no_params
       (st\<lparr>toasts := toasts st @ [share_success_toast (shareEmail st)],
           shareEmail := [], selectedFileId := None\<rparr>)
       (be\<lparr>requests := requests be @ [SelectSingle ''shared_with'' [Eq ''id'' fid],
             Update (updatedSharedWith (data (fst (db_select_single [Eq ''id'' fid] be)))
               (shareEmail st)) [Eq ''id'' fid]],
           files_table :=
             map (\<lambda>r. if row_id r = fid
                    then r\<lparr>shared_with := Some (updatedSharedWith
                           (data (fst (db_select_single [Eq ''id'' fid] be))) (shareEmail st))\<rparr>
                    else r) (files_table be)\<rparr>)"
  using assms
  by (simp add: handleShare_def snd_db_select_single db_update_def split_beta Let_def col_text_def)

lemma select_single_one_row:
  assumes "filter (\<lambda>x. row_id x = fid) (files_table be) = [r]"
    and "fails be (SelectSingle ''shared_with'' [Eq ''id'' fid]) = None"
  shows "fst (db_select_single [Eq ''id'' fid] be) = \<lparr>data = Some (shared_with r), error = None\<rparr>"
  using assms by (simp add: db_select_single_def matching_id)

lemma handleShare_appends:
  assumes "selectedFileId st = Some fid" "fid \<noteq> []" "shareEmail st \<noteq> []"
    and "filter (\<lambda>x. row_id x = fid) (files_table be) = [r]"
    and "fails be (SelectSingle ''shared_with'' [Eq ''id'' fid]) = None"
    and "fails be (Update (shared_list r @ [shareEmail st]) [Eq ''id'' fid]) = None"
  shows "files_table (snd (handleShare st be)) =
           map (\<lambda>x. if row_id x = fid
                  then x\<lparr>shared_with := Some (shared_list r @ [shareEmail st])\<rparr> else x)
             (files_table be)"
    and "fails (snd (handleShare st be)) = fails be"
proof -
  note one = select_single_one_row [OF assms(4,5)]
  have run: "handleShare st be =
     fetchFiles no_params
       (st\<lparr>toasts := toasts st @ [share_success_toast (shareEmail st)],
           shareEmail := [], selectedFileId := None\<rparr>)
       (be\<lparr>requests := requests be @ [SelectSingle ''shared_with'' [Eq ''id'' fid],
             Update (shared_list r @ [shareEmail st]) [Eq ''id'' fid]],
           files_table :=
             map (\<lambda>x. if row_id x = fid
                    then x\<lparr>shared_with := Some (shared_list r @ [shareEmail st])\<rparr>
                    else x) (files_table be)\<rparr>)"
    using handleShare_success [OF assms(1-3), of be] assms(6)
    unfolding one by (simp add: updatedSharedWith_row cong: if_cong)
  show "files_table (snd (handleShare st be)) =
           map (\<lambda>x. if row_id x = fid
                  then x\<lparr>shared_with := Some (shared_list r @ [shareEmail st])\<rparr> else x)
             (files_table be)"
    by (simp add: run fetchFiles_backend)
  show "fails (snd (handleShare st be)) = fails be"
    by (simp add: run fetchFiles_backend)
qed

text \<open>
  C7. For a share of the file with id \<open>fid\<close> with the email \<open>e\<close>, where the id names one
  row and the store answers the read and the write: afterwards that row's \<open>shared_with\<close>
  is its earlier list (an absent one read as empty) followed by \<open>e\<close>, and every other
  row is as before. The earlier entries stay in place, and \<open>e\<close> occurs once more than it
  did: sharing the same email a second time leaves it twice at the end.
\<close>

theorem share_appends:
  assumes "selectedFileId st = Some fid" and "fid \<noteq> []" and "shareEmail st = e" and "e \<noteq> []"
    and "filter (\<lambda>x. row_id x = fid) (files_table be) = [r]"
    and "fails be (SelectSingle ''shared_with'' [Eq ''id'' fid]) = None"
    and "fails be (Update (shared_list r @ [e]) [Eq ''id'' fid]) = None"
  shows "files_table (snd (handleShare st be)) =
           map (\<lambda>x. if row_id x = fid then x\<lparr>shared_with := Some (shared_list r @ [e])\<rparr> else x)
             (files_table be) \<and>
         filter (\<lambda>x. row_id x = fid) (files_table (snd (handleShare st be)))
           = [r\<lparr>shared_with := Some (shared_list r @ [e])\<rparr>] \<and>
         shared_list (r\<lparr>shared_with := Some (shared_list r @ [e])\<rparr>) = shared_list r @ [e] \<and>
         count_list (shared_list r @ [e]) e = count_list (shared_list r) e + 1 \<and>
         (fails be (Update (shared_list r @ [e, e]) [Eq ''id'' fid]) = None \<longrightarrow>
            filter (\<lambda>x. row_id x = fid)
              (files_table (snd (handleShare st (snd (handleShare st be)))))
              = [r\<lparr>shared_with := Some (shared_list r @ [e, e])\<rparr>])"
proof -
  let ?r1 = "r\<lparr>shared_with := Some (shared_list r @ [e])\<rparr>"
  let ?be1 = "snd (handleShare st be)"
  have ne: "shareEmail st \<noteq> []" using assms(3,4) by simp
  have first: "files_table ?be1 =
           map (\<lambda>x. if row_id x = fid then x\<lparr>shared_with := Some (shared_list r @ [e])\<rparr> else x)
             (files_table be)"
    and same: "fails ?be1 = fails be"
    using handleShare_appends [OF assms(1,2) ne assms(5,6)] assms(3,7) by simp_all
  have one: "filter (\<lambda>x. row_id x = fid) (files_table ?be1) = [?r1]"
    by (simp add: first filter_map_same_id assms(5))
  have sl: "shared_list ?r1 = shared_list r @ [e]"
    by (simp add: shared_list_def)
  have twice: "filter (\<lambda>x. row_id x = fid) (files_table (snd (handleShare st ?be1)))
              = [r\<lparr>shared_with := Some (shared_list r @ [e, e])\<rparr>]"
    if "fails be (Update (shared_list r @ [e, e]) [Eq ''id'' fid]) = None"
  proof -
    have "files_table (snd (handleShare st ?be1)) =
           map (\<lambda>x. if row_id x = fid
                  then x\<lparr>shared_with := Some (shared_list ?r1 @ [shareEmail st])\<rparr> else x)
             (files_table ?be1)"
      by (rule handleShare_appends(1) [OF assms(1,2) ne one])
         (simp_all add: same assms(3,6) sl that)
    then show ?thesis
      by (simp add: filter_map_same_id one sl assms(3))
  qed
  show ?thesis
    using first one sl twice by simp
qed

lemmas share_defs = signed_in_def store_def alice_def handleShare_def db_select_single_def
  db_update_def updatedSharedWith_def shared_list_def matching_def col_text_def
  row_own_def row_shared_def row_other_def refusing_def
  fetchFiles_def db_select_def fetchFiles_query_def no_params_def
  limit_applies_def finalSortBy_def sortBy_or_default_def allowedSortColumns_def
  or_q_def order_q_def select_all_def or_string_def parse_cond_def

theorem share_appends_witness:
  "selectedFileId (signed_in\<lparr>selectedFileId := Some ''f2'', shareEmail := ''alice@example.org''\<rparr>)
     = Some ''f2'' \<and>
   filter (\<lambda>x. row_id x = ''f2'') (files_table store) = [row_shared] \<and>
   shared_list row_shared = [''alice@example.org''] \<and>
   filter (\<lambda>x. row_id x = ''f2'') (files_table (snd (handleShare
      (signed_in\<lparr>selectedFileId := Some ''f2'', shareEmail := ''alice@example.org''\<rparr>) store)))
     = [row_shared\<lparr>shared_with := Some [''alice@example.org'', ''alice@example.org'']\<rparr>] \<and>
   filter (\<lambda>x. row_id x = ''f1'') (files_table (snd (handleShare
      (signed_in\<lparr>selectedFileId := Some ''f1'', shareEmail := ''bob@example.org''\<rparr>) store)))
     = [row_own\<lparr>shared_with := Some [''bob@example.org'']\<rparr>]"
  using share_appends [of "signed_in\<lparr>selectedFileId := Some ''f2'', shareEmail := ''alice@example.org''\<rparr>"
      "''f2''" "''alice@example.org''" store row_shared]
    share_appends [of "signed_in\<lparr>selectedFileId := Some ''f1'', shareEmail := ''bob@example.org''\<rparr>"
      "''f1''" "''bob@example.org''" store row_own]
  by (simp add: share_defs Let_def)


text \<open>
  C9. For a share with a target and an email set: when the read or the write fails, the
  only change to the state is one more notification, titled \<open>Error sharing file\<close> and
  carrying the error's message, so the target and the email are as before; each of the two is cleared exactly when both the
  read and the write succeeded.
\<close>

theorem share_clears_on_success_only:
  assumes "selectedFileId st = Some fid" and "fid \<noteq> []" and "shareEmail st \<noteq> []"
  shows "(\<forall>m. error (fst (db_select_single [Eq ''id'' fid] be)) = Some m \<longrightarrow>
            fst (handleShare st be) = st\<lparr>toasts := toasts st @ [share_error_toast m]\<rparr> \<and>
            toasts (fst (handleShare st be)) = toasts st @
              [\<lparr>title = ''Error sharing file'', description = m, variant = Some ''destructive''\<rparr>] \<and>
            shareEmail (fst (handleShare st be)) = shareEmail st \<and>
            selectedFileId (fst (handleShare st be)) = Some fid) \<and>
         (\<forall>m. error (fst (db_select_single [Eq ''id'' fid] be)) = None \<and>
              fails be (Update (updatedSharedWith (data (fst (db_select_single [Eq ''id'' fid] be)))
                (shareEmail st)) [Eq ''id'' fid]) = Some m \<longrightarrow>
            fst (handleShare st be) = st\<lparr>toasts := toasts st @ [share_error_toast m]\<rparr> \<and>
            toasts (fst (handleShare st be)) = toasts st @
              [\<lparr>title = ''Error sharing file'', description = m, variant = Some ''destructive''\<rparr>] \<and>
            shareEmail (fst (handleShare st be)) = shareEmail st \<and>
            selectedFileId (fst (handleShare st be)) = Some fid) \<and>
         (shareEmail (fst (handleShare st be)) = [] \<longleftrightarrow>
            error (fst (db_select_single [Eq ''id'' fid] be)) = None \<and>
            fails be (Update (updatedSharedWith (data (fst (db_select_single [Eq ''id'' fid] be)))
                (shareEmail st)) [Eq ''id'' fid]) = None) \<and>
         (selectedFileId (fst (handleShare st be)) = None \<longleftrightarrow>
            error (fst (db_select_single [Eq ''id'' fid] be)) = None \<and>
            fails be (Update (updatedSharedWith (data (fst (db_select_single [Eq ''id'' fid] be)))
                (shareEmail st)) [Eq ''id'' fid]) = None)"
proof -
  let ?cur = "fst (db_select_single [Eq ''id'' fid] be)"
  let ?w = "fails be (Update (updatedSharedWith (data ?cur) (shareEmail st)) [Eq ''id'' fid])"
  have R: "fst (handleShare st be) = st\<lparr>toasts := toasts st @ [share_error_toast m]\<rparr>"
    if "error ?cur = Some m" for m
    by (simp add: handleShare_read_fails [OF assms that])
  have W: "fst (handleShare st be) = st\<lparr>toasts := toasts st @ [share_error_toast m]\<rparr>"
    if "error ?cur = None" "?w = Some m" for m
    by (simp add: handleShare_write_fails [OF assms that])
  have S: "shareEmail (fst (handleShare st be)) = [] \<and> selectedFileId (fst (handleShare st be)) = None"
    if "error ?cur = None" "?w = None"
    by (simp add: handleShare_success [OF assms that] fetchFiles_state)
  have kept: "shareEmail (fst (handleShare st be)) = shareEmail st \<and>
              selectedFileId (fst (handleShare st be)) = Some fid"
    if "\<not> (error ?cur = None \<and> ?w = None)"
  proof (cases "error ?cur")
    case (Some m)
    then show ?thesis by (simp add: R assms(1))
  next
    case None
    with that obtain m where "?w = Some m" by auto
    with None show ?thesis by (simp add: W assms(1))
  qed
  show ?thesis
  proof (intro conjI allI impI)
    fix m assume a: "error ?cur = Some m"
    show "fst (handleShare st be) = st\<lparr>toasts := toasts st @ [share_error_toast m]\<rparr>"
      by (rule R [OF a])
    show "toasts (fst (handleShare st be)) = toasts st @
              [\<lparr>title = ''Error sharing file'', description = m, variant = Some ''destructive''\<rparr>]"
      by (simp add: R [OF a] share_error_toast_def)
    show "shareEmail (fst (handleShare st be)) = shareEmail st"
      by (simp add: R [OF a])
    show "selectedFileId (fst (handleShare st be)) = Some fid"
      by (simp add: R [OF a] assms(1))
  next
    fix m assume "error ?cur = None \<and> ?w = Some m"
    then have a: "error ?cur = None" and b: "?w = Some m" by simp_all
    show "fst (handleShare st be) = st\<lparr>toasts := toasts st @ [share_error_toast m]\<rparr>"
      by (rule W [OF a b])
    show "toasts (fst (handleShare st be)) = toasts st @
              [\<lparr>title = ''Error sharing file'', description = m, variant = Some ''destructive''\<rparr>]"
      by (simp add: W [OF a b] share_error_toast_def)
    show "shareEmail (fst (handleShare st be)) = shareEmail st"
      by (simp add: W [OF a b])
    show "selectedFileId (fst (handleShare st be)) = Some fid"
      by (simp add: W [OF a b] assms(1))
  next
    show "shareEmail (fst (handleShare st be)) = [] \<longleftrightarrow> error ?cur = None \<and> ?w = None"
      using S kept assms(3) by metis
    show "selectedFileId (fst (handleShare st be)) = None \<longleftrightarrow> error ?cur = None \<and> ?w = None"
      using S kept by (metis option.distinct(1))
  qed
qed

theorem share_clears_on_success_only_witness:
  "selectedFileId (signed_in\<lparr>selectedFileId := Some ''f1'', shareEmail := ''bob@example.org''\<rparr>)
     = Some ''f1'' \<and>
   fst (handleShare (signed_in\<lparr>selectedFileId := Some ''f1'', shareEmail := ''bob@example.org''\<rparr>)
      (refusing is_select_single ''offline'' store))
     = signed_in\<lparr>selectedFileId := Some ''f1'', shareEmail := ''bob@example.org'',
         toasts := [\<lparr>title = ''Error sharing file'', description = ''offline'',
                     variant = Some ''destructive''\<rparr>]\<rparr> \<and>
   fst (handleShare (signed_in\<lparr>selectedFileId := Some ''f1'', shareEmail := ''bob@example.org''\<rparr>)
      (refusing is_update ''denied'' store))
     = signed_in\<lparr>selectedFileId := Some ''f1'', shareEmail := ''bob@example.org'',
         toasts := [\<lparr>title = ''Error sharing file'', description = ''denied'',
                     variant = Some ''destructive''\<rparr>]\<rparr> \<and>
   shareEmail (fst (handleShare
      (signed_in\<lparr>selectedFileId := Some ''f1'', shareEmail := ''bob@example.org''\<rparr>) store)) = [] \<and>
   selectedFileId (fst (handleShare
      (signed_in\<lparr>selectedFileId := Some ''f1'', shareEmail := ''bob@example.org''\<rparr>) store)) = None"
proof -
  have run:
    "selectedFileId (signed_in\<lparr>selectedFileId := Some ''f1'', shareEmail := ''bob@example.org''\<rparr>)
       = Some ''f1'' \<and>
     fst (handleShare (signed_in\<lparr>selectedFileId := Some ''f1'', shareEmail := ''bob@example.org''\<rparr>)
        (refusing is_select_single ''offline'' store))
       = signed_in\<lparr>selectedFileId := Some ''f1'', shareEmail := ''bob@example.org'',
           toasts := [\<lparr>title = ''Error sharing file'', description = ''offline'',
                       variant = Some ''destructive''\<rparr>]\<rparr> \<and>
     fst (handleShare (signed_in\<lparr>selectedFileId := Some ''f1'', shareEmail := ''bob@example.org''\<rparr>)
        (refusing is_update ''denied'' store))
       = signed_in\<lparr>selectedFileId := Some ''f1'', shareEmail := ''bob@example.org'',
           toasts := [\<lparr>title = ''Error sharing file'', description = ''denied'',
                       variant = Some ''destructive''\<rparr>]\<rparr> \<and>
     shareEmail (fst (handleShare
        (signed_in\<lparr>selectedFileId := Some ''f1'', shareEmail := ''bob@example.org''\<rparr>) store)) = [] \<and>
     selectedFileId (fst (handleShare
        (signed_in\<lparr>selectedFileId := Some ''f1'', shareEmail := ''bob@example.org''\<rparr>) store)) = None"
    by (simp add: share_defs Let_def share_error_toast_def)
  show ?thesis
    using share_clears_on_success_only
        [of "signed_in\<lparr>selectedFileId := Some ''f1'', shareEmail := ''bob@example.org''\<rparr>" "''f1''"
          "refusing is_select_single ''offline'' store"]
      share_clears_on_success_only
        [of "signed_in\<lparr>selectedFileId := Some ''f1'', shareEmail := ''bob@example.org''\<rparr>" "''f1''"
          "refusing is_update ''denied'' store"]
      share_clears_on_success_only
        [of "signed_in\<lparr>selectedFileId := Some ''f1'', shareEmail := ''bob@example.org''\<rparr>" "''f1''"
          store]
    by - (rule run)
qed

end
